theory Spec2Isabelle
  imports Complex_Main "HOL-Library.Product_Lexorder"
begin

section \<open>Numbers, strings and errors\<close>

text \<open>
  JavaScript numbers are modelled by exact rationals: every claim below is about
  comparisons, sums, products and quotients of finite values.  Timestamps
  (\<open>Date.now()\<close>) are integers (milliseconds).  Identifiers, keys and messages are
  \<open>string\<close>s; the text handed to the intent classifier is a list of UTF-16 code
  units, since its normalisation removes code units above the 8-bit range.
\<close>

type_synonym number = rat

text \<open>\<open>src/infra/errors.ts\<close>: the error codes and the three error classes.\<close>

datatype ErrorCode =
    REDIS_CONNECTION_ERROR | REDIS_OPERATION_ERROR | INTERNAL_ERROR
  | TWILIO_API_ERROR | MELHORENVIO_API_ERROR | MELHORENVIO_TIMEOUT | TABELA_CSV_ERROR
  | INVALID_CEP | INVALID_QUANTITY | INVALID_PHONE_NUMBER
  | SESSION_NOT_FOUND | SESSION_EXPIRED | INVALID_STATE_TRANSITION
  | NO_FREIGHT_OPTIONS | FREIGHT_CALCULATION_ERROR
  | UNKNOWN_ERROR | VALIDATION_ERROR

text \<open>
  A thrown error carries its class, its code and its message; the \<open>context\<close> object
  attached for logging is left out.  \<open>OtherError\<close> stands for any throwable that is not
  one of the three classes (a \<open>TypeError\<close>, a driver error).
\<close>

datatype error =
    InfrastructureError ErrorCode string
  | ProviderError ErrorCode string bool
  | BusinessError ErrorCode string
  | OtherError string

fun isBusinessError :: "error \<Rightarrow> bool" where
  "isBusinessError (BusinessError c m) = True"
| "isBusinessError e = False"

fun isInfrastructureError :: "error \<Rightarrow> bool" where
  "isInfrastructureError (InfrastructureError c m) = True"
| "isInfrastructureError e = False"

fun isRetryable :: "error \<Rightarrow> bool" where
  "isRetryable (InfrastructureError c m) = True"
| "isRetryable (ProviderError c m r) = r"
| "isRetryable (BusinessError c m) = False"
| "isRetryable (OtherError m) = False"

fun errorCode :: "error \<Rightarrow> ErrorCode option" where
  "errorCode (InfrastructureError c m) = Some c"
| "errorCode (ProviderError c m r) = Some c"
| "errorCode (BusinessError c m) = Some c"
| "errorCode (OtherError m) = None"

fun errorMessage :: "error \<Rightarrow> string" where
  "errorMessage (InfrastructureError c m) = m"
| "errorMessage (ProviderError c m r) = m"
| "errorMessage (BusinessError c m) = m"
| "errorMessage (OtherError m) = m"

definition isDigitChar :: "char \<Rightarrow> bool" where
  "isDigitChar c = (48 \<le> (of_char c :: nat) \<and> (of_char c :: nat) \<le> 57)"

section \<open>Conversation state machine\<close>

datatype ConversationState =
  IDLE | AWAITING_CEP | AWAITING_QUANTITY | CALCULATING | COMPLETED | ERROR

text \<open>The event \<open>ERROR\<close> is \<open>ERROR_EVENT\<close> here, the state \<open>ERROR\<close> having taken the name.\<close>

datatype ConversationEvent =
  START_FREIGHT_QUERY | CEP_PROVIDED | QUANTITY_PROVIDED | CALCULATION_SUCCESS
  | CALCULATION_ERROR | RESET | ERROR_EVENT

text \<open>The string values of the two enums, as the template literal of the error message prints them.\<close>

fun ConversationState_str :: "ConversationState \<Rightarrow> string" where
  "ConversationState_str IDLE = ''IDLE''"
| "ConversationState_str AWAITING_CEP = ''AWAITING_CEP''"
| "ConversationState_str AWAITING_QUANTITY = ''AWAITING_QUANTITY''"
| "ConversationState_str CALCULATING = ''CALCULATING''"
| "ConversationState_str COMPLETED = ''COMPLETED''"
| "ConversationState_str ERROR = ''ERROR''"

fun ConversationEvent_str :: "ConversationEvent \<Rightarrow> string" where
  "ConversationEvent_str START_FREIGHT_QUERY = ''START_FREIGHT_QUERY''"
| "ConversationEvent_str CEP_PROVIDED = ''CEP_PROVIDED''"
| "ConversationEvent_str QUANTITY_PROVIDED = ''QUANTITY_PROVIDED''"
| "ConversationEvent_str CALCULATION_SUCCESS = ''CALCULATION_SUCCESS''"
| "ConversationEvent_str CALCULATION_ERROR = ''CALCULATION_ERROR''"
| "ConversationEvent_str RESET = ''RESET''"
| "ConversationEvent_str ERROR_EVENT = ''ERROR''"

text \<open>
  \<open>ConversationContext\<close>.  Optional properties are \<open>option\<close>s.  The spread copy
  \<open>{...context, currentState: s}\<close> is a record update: every other property is kept.
\<close>

record ConversationContext =
  phoneNumber :: string
  currentState :: ConversationState
  cep :: "string option"
  quantity :: "number option"
  totalWeight :: "number option"
  lastMessage :: "string option"
  errorCount :: "number option"
  metadata :: "(string \<times> string) list option"

text \<open>
  \<open>StateTransition\<close> (\<open>from\<close>, \<open>event\<close>, \<open>to\<close> are \<open>t_from\<close>, \<open>t_event\<close>, \<open>t_to\<close>).
  A guard reads the context.  An action has type
  \<open>(context) => void\<close>: all it can do is write to the object it is handed, so it is
  modelled by the function from the object before the call to the object after it.
\<close>

record StateTransition =
  t_from :: ConversationState
  t_event :: ConversationEvent
  t_to :: ConversationState
  guard :: "(ConversationContext \<Rightarrow> bool) option"
  action :: "(ConversationContext \<Rightarrow> ConversationContext) option"

definition isValidCEP :: "string option \<Rightarrow> bool" where
  "isValidCEP c =
     (case c of
        None \<Rightarrow> False
      | Some s \<Rightarrow> if s = [] then False else length (filter isDigitChar s) = 8)"

definition isValidQuantity :: "number option \<Rightarrow> bool" where
  "isValidQuantity q = (case q of None \<Rightarrow> False | Some n \<Rightarrow> n > 0)"

text \<open>The action of the \<open>QUANTITY_PROVIDED\<close> transition: \<open>ctx.totalWeight = (ctx.quantity || 0) * 0.3\<close>.\<close>

definition quantityAction :: "ConversationContext \<Rightarrow> ConversationContext" where
  "quantityAction ctx =
     ctx\<lparr>totalWeight := Some ((case quantity ctx of None \<Rightarrow> 0 | Some q \<Rightarrow> q) * (3 / 10))\<rparr>"

definition mkTransition ::
  "ConversationState \<Rightarrow> ConversationEvent \<Rightarrow> ConversationState \<Rightarrow> StateTransition" where
  "mkTransition f e t = \<lparr>t_from = f, t_event = e, t_to = t, guard = None, action = None\<rparr>"

definition transitions :: "StateTransition list" where
  "transitions =
    [ mkTransition IDLE START_FREIGHT_QUERY AWAITING_CEP,
      \<lparr>t_from = AWAITING_CEP, t_event = CEP_PROVIDED, t_to = AWAITING_QUANTITY,
        guard = Some (\<lambda>ctx. isValidCEP (cep ctx)), action = None\<rparr>,
      \<lparr>t_from = AWAITING_QUANTITY, t_event = QUANTITY_PROVIDED, t_to = CALCULATING,
        guard = Some (\<lambda>ctx. isValidQuantity (quantity ctx)), action = Some quantityAction\<rparr>,
      mkTransition CALCULATING CALCULATION_SUCCESS COMPLETED,
      mkTransition CALCULATING CALCULATION_ERROR ERROR,
      mkTransition AWAITING_CEP RESET IDLE,
      mkTransition AWAITING_QUANTITY RESET IDLE,
      mkTransition CALCULATING RESET IDLE,
      mkTransition COMPLETED RESET IDLE,
      mkTransition ERROR RESET IDLE,
      mkTransition AWAITING_CEP ERROR_EVENT ERROR,
      mkTransition AWAITING_QUANTITY ERROR_EVENT ERROR ]"

definition findTransition ::
  "ConversationState \<Rightarrow> ConversationEvent \<Rightarrow> StateTransition option" where
  "findTransition s e = List.find (\<lambda>t. t_from t = s \<and> t_event t = e) transitions"

definition canTransition :: "ConversationState \<Rightarrow> ConversationEvent \<Rightarrow> bool" where
  "canTransition s e =
     list_ex (\<lambda>t. t_from t = s \<and> t_event t = e) transitions"

text \<open>
  Objects live in a store: a reference is an index, \<open>{...}\<close> allocates a new object at
  the end.  \<open>transition\<close> receives a reference to the caller's context, so that what
  it does to that object is visible in the store it returns.  A reference handed to
  \<open>transition\<close> always points into the store.
\<close>

type_synonym ref = nat
type_synonym store = "ConversationContext list"

definition invalidTransitionMessage :: "ConversationState \<Rightarrow> ConversationEvent \<Rightarrow> string" where
  "invalidTransitionMessage s e =
     ''Invalid transition from '' @ ConversationState_str s @ '' with event '' @ ConversationEvent_str e"

definition transition ::
  "store \<Rightarrow> ref \<Rightarrow> ConversationEvent \<Rightarrow> (error + ref) \<times> store" where
  "transition h context event =
     (let current = currentState (h ! context) in
      case findTransition current event of
        None \<Rightarrow>
          (Inl (BusinessError INVALID_STATE_TRANSITION (invalidTransitionMessage current event)), h)
      | Some t \<Rightarrow>
          if (case guard t of None \<Rightarrow> False | Some g \<Rightarrow> \<not> g (h ! context)) then
            (Inl (BusinessError VALIDATION_ERROR ''Transition guard condition not met''), h)
          else
            let h1 = (case action t of None \<Rightarrow> h | Some a \<Rightarrow> h[context := a (h ! context)]);
                newContext = (h1 ! context)\<lparr>currentState := t_to t\<rparr>
            in (Inr (length h1), h1 @ [newContext]))"

text \<open>
  The guard as the specification words it (a positive integer within the upper bound
  9999), for comparison with \<open>isValidQuantity\<close>.
\<close>

definition positiveIntegerWithinBound :: "number option \<Rightarrow> bool" where
  "positiveIntegerWithinBound q =
     (case q of None \<Rightarrow> False | Some n \<Rightarrow> of_int \<lfloor>n\<rfloor> = n \<and> 0 < n \<and> n \<le> 9999)"

text \<open>Example contexts, as in \<open>state-machine.test.ts\<close>.\<close>

definition awaitingQuantityContext :: "number option \<Rightarrow> ConversationContext" where
  "awaitingQuantityContext q =
     \<lparr>phoneNumber = ''5511999999999'', currentState = AWAITING_QUANTITY,
      cep = Some ''01001000'', quantity = q, totalWeight = None, lastMessage = None,
      errorCount = None, metadata = None\<rparr>"

definition idleContext :: ConversationContext where
  "idleContext =
     \<lparr>phoneNumber = ''5511999999999'', currentState = IDLE,
      cep = None, quantity = None, totalWeight = None, lastMessage = None,
      errorCount = None, metadata = None\<rparr>"

section \<open>Properties of the state machine\<close>

lemma findTransition_None_iff:
  "(findTransition s e = None) = (\<not> canTransition s e)"
  by (cases s; cases e;
      simp add: findTransition_def canTransition_def transitions_def mkTransition_def)

lemma findTransition_quantity:
  "findTransition AWAITING_QUANTITY QUANTITY_PROVIDED =
     Some \<lparr>t_from = AWAITING_QUANTITY, t_event = QUANTITY_PROVIDED, t_to = CALCULATING,
        guard = Some (\<lambda>ctx. isValidQuantity (quantity ctx)), action = Some quantityAction\<rparr>"
  by (simp add: findTransition_def transitions_def mkTransition_def)

text \<open>A rejected transition leaves the store as it was.\<close>

lemma transition_rejected_store:
  "fst (transition h r e) = Inl err \<Longrightarrow> snd (transition h r e) = h"
  by (auto simp: transition_def Let_def split: option.splits if_splits)

text \<open>The \<open>currentState\<close> of the caller's object is never written: the new state goes to the copy.\<close>

lemma transition_input_state_kept:
  "r < length h \<Longrightarrow> currentState (snd (transition h r e) ! r) = currentState (h ! r)"
  by (cases "currentState (h ! r)"; cases e)
     (auto simp: transition_def findTransition_def transitions_def mkTransition_def
        quantityAction_def nth_append Let_def)

text \<open>
  Only the transition from \<open>AWAITING_QUANTITY\<close> on \<open>QUANTITY_PROVIDED\<close> has an action:
  every other call leaves the caller's object as it was.
\<close>

lemma transition_input_kept_without_action:
  "r < length h \<Longrightarrow>
   \<not> (currentState (h ! r) = AWAITING_QUANTITY \<and> e = QUANTITY_PROVIDED) \<Longrightarrow>
   snd (transition h r e) ! r = h ! r"
  by (cases "currentState (h ! r)"; cases e)
     (auto simp: transition_def findTransition_def transitions_def mkTransition_def
        nth_append Let_def)

text \<open>
  C3.  A pair (state, event) that \<open>transitions\<close> does not list is rejected with a
  \<open>BusinessError\<close> of code \<open>INVALID_STATE_TRANSITION\<close> whose message names the state
  and the event, and the store is unchanged; for a pair that is listed, whatever error
  \<open>transition\<close> raises has another code.
\<close>

theorem C3_transition_StateError:
  "(\<not> canTransition (currentState (h ! r)) e \<longrightarrow>
      transition h r e =
        (Inl (BusinessError INVALID_STATE_TRANSITION
               (''Invalid transition from '' @ ConversationState_str (currentState (h ! r))
                  @ '' with event '' @ ConversationEvent_str e)), h))
   \<and> (canTransition (currentState (h ! r)) e \<longrightarrow>
        (\<forall>err. fst (transition h r e) = Inl err \<longrightarrow> errorCode err \<noteq> Some INVALID_STATE_TRANSITION))"
proof (intro conjI impI allI)
  assume "\<not> canTransition (currentState (h ! r)) e"
  then have "findTransition (currentState (h ! r)) e = None"
    by (simp add: findTransition_None_iff)
  then show "transition h r e =
        (Inl (BusinessError INVALID_STATE_TRANSITION
               (''Invalid transition from '' @ ConversationState_str (currentState (h ! r))
                  @ '' with event '' @ ConversationEvent_str e)), h)"
    by (simp add: transition_def invalidTransitionMessage_def)
next
  fix err
  assume "canTransition (currentState (h ! r)) e" and res: "fst (transition h r e) = Inl err"
  then obtain t where "findTransition (currentState (h ! r)) e = Some t"
    using findTransition_None_iff[of "currentState (h ! r)" e] by auto
  with res show "errorCode err \<noteq> Some INVALID_STATE_TRANSITION"
    by (auto simp: transition_def Let_def split: option.splits if_splits)
qed

text \<open>
  C3 on two calls: \<open>CEP_PROVIDED\<close> in state \<open>IDLE\<close> is not in the table;
  \<open>QUANTITY_PROVIDED\<close> in state \<open>AWAITING_QUANTITY\<close> with quantity 0 is in the table, and
  its rejection is a \<open>VALIDATION_ERROR\<close>.
\<close>

theorem C3_transition_StateError_witness:
  "\<not> canTransition (currentState ([idleContext] ! 0)) CEP_PROVIDED
   \<and> transition [idleContext] 0 CEP_PROVIDED =
       (Inl (BusinessError INVALID_STATE_TRANSITION
              ''Invalid transition from IDLE with event CEP_PROVIDED''), [idleContext])
   \<and> canTransition (currentState ([awaitingQuantityContext (Some 0)] ! 0)) QUANTITY_PROVIDED
   \<and> fst (transition [awaitingQuantityContext (Some 0)] 0 QUANTITY_PROVIDED) =
        Inl (BusinessError VALIDATION_ERROR ''Transition guard condition not met'')
   \<and> errorCode (BusinessError VALIDATION_ERROR ''Transition guard condition not met'')
        \<noteq> Some INVALID_STATE_TRANSITION"
  using C3_transition_StateError [of "[idleContext]" 0 CEP_PROVIDED]
        C3_transition_StateError [of "[awaitingQuantityContext (Some 0)]" 0 QUANTITY_PROVIDED]
  by (simp add: idleContext_def awaitingQuantityContext_def canTransition_def transitions_def
        mkTransition_def transition_def findTransition_def isValidQuantity_def)

text \<open>
  C4.  The code at the input \<open>{currentState: AWAITING_QUANTITY, quantity: 5}\<close> with
  the event \<open>QUANTITY_PROVIDED\<close>: the action runs on the caller's object before the
  copy is taken, so after the call the caller's object (reference 0) has
  \<open>totalWeight = 1.5\<close> where it had none; the returned context is the new object at
  reference 1.
\<close>

theorem C4_quantity_action_writes_input:
  "transition [awaitingQuantityContext (Some 5)] 0 QUANTITY_PROVIDED =
     (Inr 1,
      [(awaitingQuantityContext (Some 5))\<lparr>totalWeight := Some (3 / 2)\<rparr>,
       (awaitingQuantityContext (Some 5))\<lparr>totalWeight := Some (3 / 2), currentState := CALCULATING\<rparr>])
   \<and> totalWeight ([awaitingQuantityContext (Some 5)] ! 0) = None
   \<and> totalWeight (snd (transition [awaitingQuantityContext (Some 5)] 0 QUANTITY_PROVIDED) ! 0)
        = Some (3 / 2)"
  by (simp add: transition_def findTransition_quantity awaitingQuantityContext_def
        isValidQuantity_def quantityAction_def)

text \<open>
  C5, as stated, fails: the quantity 10000 is above the bound 9999, and the transition
  from \<open>AWAITING_QUANTITY\<close> on \<open>QUANTITY_PROVIDED\<close> succeeds.
\<close>

theorem C5_counterexample:
  "\<not> positiveIntegerWithinBound (quantity (awaitingQuantityContext (Some 10000)))
   \<and> transition [awaitingQuantityContext (Some 10000)] 0 QUANTITY_PROVIDED =
     (Inr 1,
      [(awaitingQuantityContext (Some 10000))\<lparr>totalWeight := Some 3000\<rparr>,
       (awaitingQuantityContext (Some 10000))\<lparr>totalWeight := Some 3000, currentState := CALCULATING\<rparr>])"
  by (simp add: transition_def findTransition_quantity awaitingQuantityContext_def
        isValidQuantity_def quantityAction_def positiveIntegerWithinBound_def)

text \<open>
  C5, amended.  From \<open>AWAITING_QUANTITY\<close> on \<open>QUANTITY_PROVIDED\<close> the transition
  succeeds if and only if the context has a quantity greater than 0 (the guard checks
  neither integrality nor an upper bound).  On success the returned context is a new
  object in state \<open>CALCULATING\<close> with \<open>totalWeight = quantity * 0.3\<close>.  Otherwise the
  call is rejected with a \<open>BusinessError\<close> of code \<open>VALIDATION_ERROR\<close> and the store,
  hence the state \<open>AWAITING_QUANTITY\<close> of the context, is unchanged.
\<close>

theorem C5_quantity_guard:
  assumes "r < length h" and "currentState (h ! r) = AWAITING_QUANTITY"
  shows "((\<exists>r'. fst (transition h r QUANTITY_PROVIDED) = Inr r')
            \<longleftrightarrow> (\<exists>q. quantity (h ! r) = Some q \<and> 0 < q))
     \<and> (\<forall>q. quantity (h ! r) = Some q \<and> 0 < q \<longrightarrow>
           fst (transition h r QUANTITY_PROVIDED) = Inr (length h)
         \<and> length (snd (transition h r QUANTITY_PROVIDED)) = Suc (length h)
         \<and> currentState (snd (transition h r QUANTITY_PROVIDED) ! length h) = CALCULATING
         \<and> totalWeight (snd (transition h r QUANTITY_PROVIDED) ! length h) = Some (q * (3 / 10)))
     \<and> (\<not> (\<exists>q. quantity (h ! r) = Some q \<and> 0 < q) \<longrightarrow>
           transition h r QUANTITY_PROVIDED =
             (Inl (BusinessError VALIDATION_ERROR ''Transition guard condition not met''), h))"
  using assms
  by (auto simp: transition_def findTransition_quantity isValidQuantity_def quantityAction_def
        nth_append split: option.splits)

text \<open>C5 on the quantities 5 (accepted, total weight 1.5) and 0 (rejected).\<close>

theorem C5_quantity_guard_witness:
  "0 < length [awaitingQuantityContext (Some 5)]
   \<and> currentState ([awaitingQuantityContext (Some 5)] ! 0) = AWAITING_QUANTITY
   \<and> quantity ([awaitingQuantityContext (Some 5)] ! 0) = Some 5 \<and> (0::rat) < 5
   \<and> fst (transition [awaitingQuantityContext (Some 5)] 0 QUANTITY_PROVIDED) = Inr 1
   \<and> currentState (snd (transition [awaitingQuantityContext (Some 5)] 0 QUANTITY_PROVIDED) ! 1)
        = CALCULATING
   \<and> totalWeight (snd (transition [awaitingQuantityContext (Some 5)] 0 QUANTITY_PROVIDED) ! 1)
        = Some (3 / 2)
   \<and> \<not> (\<exists>q. quantity ([awaitingQuantityContext (Some 0)] ! 0) = Some q \<and> 0 < q)
   \<and> transition [awaitingQuantityContext (Some 0)] 0 QUANTITY_PROVIDED =
        (Inl (BusinessError VALIDATION_ERROR ''Transition guard condition not met''),
         [awaitingQuantityContext (Some 0)])"
  using C5_quantity_guard [of 0 "[awaitingQuantityContext (Some 5)]"]
        C5_quantity_guard [of 0 "[awaitingQuantityContext (Some 0)]"]
  by (simp add: awaitingQuantityContext_def)

section \<open>Configuration and the Redis client\<close>

text \<open>
  \<open>src/config/app.config.ts\<close>.  The configuration is read from the environment at
  start-up; the model takes the fields it uses as a parameter (\<open>session.ttlMs\<close>,
  \<open>freight.defaultUnitWeight\<close>, \<open>freight.maxOptionsToReturn\<close>, without the nesting),
  with the defaults of the source in \<open>defaultConfig\<close>.
\<close>

datatype Env = development | production | test

record AppConfig =
  env :: Env
  ttlMs :: int
  defaultUnitWeight :: number
  maxOptionsToReturn :: int

definition defaultConfig :: AppConfig where
  "defaultConfig =
     \<lparr>env = development, ttlMs = 6 * 60 * 60 * 1000, defaultUnitWeight = 3 / 10,
      maxOptionsToReturn = 3\<rparr>"

text \<open>\<open>Math.ceil(ttlMs / 1000)\<close>.\<close>

definition ttlSeconds :: "AppConfig \<Rightarrow> int" where
  "ttlSeconds cfg = \<lceil>(of_int (ttlMs cfg) :: rat) / 1000\<rceil>"

text \<open>
  The Redis client (\<open>redis.client.ts\<close>) in front of the key-value backend.  The backend
  is a map from keys to values with their time to live in seconds.  \<open>isConnected\<close> is
  the client's flag (credentials present, so the configuration is set).  Every command
  is one HTTP exchange with retries of its own, and it may fail while another one
  succeeds: \<open>execute\<close> then returns \<open>null\<close>, so \<open>get\<close> yields \<open>null\<close> and \<open>set\<close> and
  \<open>delete\<close> yield \<open>false\<close>, and the backend is left as it was.  \<open>reachable\<close> says
  whether the reads (\<open>get\<close>, \<open>ttl\<close>) of the operation at hand are answered; a writing
  command (\<open>set\<close>, \<open>delete\<close>) takes the outcome \<open>ok\<close> of its own exchange as an argument.
\<close>

record ('k, 'v) Redis =
  isConnected :: bool
  reachable :: bool
  kv :: "'k \<rightharpoonup> ('v \<times> int)"

definition isAvailable :: "('k, 'v) Redis \<Rightarrow> bool" where
  "isAvailable R = isConnected R"

definition redis_get :: "('k, 'v) Redis \<Rightarrow> 'k \<Rightarrow> 'v option" where
  "redis_get R k =
     (if isAvailable R \<and> reachable R then map_option fst (kv R k) else None)"

text \<open>\<open>set\<close> stores the value with the time to live \<open>ttlSeconds || Math.ceil(ttlMs / 1000)\<close>.\<close>

definition redis_set ::
  "AppConfig \<Rightarrow> ('k, 'v) Redis \<Rightarrow> bool \<Rightarrow> 'k \<Rightarrow> 'v \<Rightarrow> int \<Rightarrow> bool \<times> ('k, 'v) Redis" where
  "redis_set cfg R ok k v secs =
     (let ttl = (if secs = 0 then ttlSeconds cfg else secs)
      in if isAvailable R \<and> ok then (True, R\<lparr>kv := (kv R)(k \<mapsto> (v, ttl))\<rparr>)
         else (False, R))"

definition redis_delete :: "('k, 'v) Redis \<Rightarrow> bool \<Rightarrow> 'k \<Rightarrow> bool \<times> ('k, 'v) Redis" where
  "redis_delete R ok k =
     (if isAvailable R \<and> ok then (kv R k \<noteq> None, R\<lparr>kv := (kv R)(k := None)\<rparr>)
      else (False, R))"

definition redis_ttl :: "('k, 'v) Redis \<Rightarrow> 'k \<Rightarrow> int option" where
  "redis_ttl R k =
     (if isAvailable R \<and> reachable R then
        (case kv R k of None \<Rightarrow> None | Some (v, t) \<Rightarrow> if t \<ge> 0 then Some t else None)
      else None)"

section \<open>Session manager\<close>

text \<open>\<open>SessionData\<close> extends \<open>ConversationContext\<close>.\<close>

record SessionData = ConversationContext +
  tenantId :: string
  createdAt :: int
  updatedAt :: int
  expiresAt :: int

text \<open>
  The state the session manager works on: the Redis client and its backend, the
  in-memory store (keyed by phone number alone) and the clock (\<open>Date.now()\<close>).
\<close>

record SessionState =
  redis :: "(string, SessionData) Redis"
  memoryStore :: "string \<rightharpoonup> SessionData"
  now :: int

text \<open>The em dash of two error messages, in UTF-8.\<close>

definition emDash :: string where
  "emDash = [CHR 0xE2, CHR 0x80, CHR 0x94]"

definition getKey :: "string \<Rightarrow> string \<Rightarrow> string" where
  "getKey tenant phone = ''session:'' @ tenant @ '':'' @ phone"

definition getOldKey :: "string \<Rightarrow> string" where
  "getOldKey phone = ''session:'' @ phone"

text \<open>\<open>InMemorySessionStore.get\<close>: an expired entry is deleted and reported absent.\<close>

definition memory_get :: "SessionState \<Rightarrow> string \<Rightarrow> SessionData option \<times> SessionState" where
  "memory_get st phone =
     (case memoryStore st phone of
        None \<Rightarrow> (None, st)
      | Some session \<Rightarrow>
          if now st > expiresAt session
          then (None, st\<lparr>memoryStore := (memoryStore st)(phone := None)\<rparr>)
          else (Some session, st))"

text \<open>
  \<open>getSession\<close>.  The \<open>try\<close> block cannot throw anything but the
  \<open>InfrastructureError\<close> of the production branch (the Redis client catches its own
  failures), which the \<open>catch\<close> rethrows.  \<open>delOk\<close> is the outcome of the \<open>DEL\<close>
  command, should \<open>getSession\<close> issue it; \<open>getSession\<close> does not look at its result.
\<close>

definition getSession ::
  "AppConfig \<Rightarrow> bool \<Rightarrow> SessionState \<Rightarrow> string \<Rightarrow> string
     \<Rightarrow> (error + SessionData option) \<times> SessionState" where
  "getSession cfg delOk st tenant phone =
     (if tenant = [] then
        (Inl (BusinessError VALIDATION_ERROR ''tenant_id is required to get session''), st)
      else if isAvailable (redis st) then
        (case redis_get (redis st) (getKey tenant phone) of
           Some session \<Rightarrow> (Inr (Some session), st)
         | None \<Rightarrow>
            (case redis_get (redis st) (getOldKey phone) of
               Some session \<Rightarrow>
                 (Inr None, st\<lparr>redis := snd (redis_delete (redis st) delOk (getOldKey phone))\<rparr>)
             | None \<Rightarrow> (Inr None, st)))
      else if env cfg = production then
        (Inl (InfrastructureError INTERNAL_ERROR
               (''Redis unavailable in production '' @ emDash @ '' cannot retrieve session'')), st)
      else
        (case memory_get st phone of (session, st') \<Rightarrow> (Inr session, st')))"

text \<open>\<open>saveSession\<close>.  \<open>setOk\<close> is the outcome of its \<open>SET\<close> command.\<close>

definition saveSession ::
  "AppConfig \<Rightarrow> bool \<Rightarrow> SessionState \<Rightarrow> string \<Rightarrow> string \<Rightarrow> SessionData
     \<Rightarrow> error option \<times> SessionState" where
  "saveSession cfg setOk st tenant phone session =
     (let saved =
        (if isAvailable (redis st) then
           (case redis_set cfg (redis st) setOk (getKey tenant phone) session (ttlSeconds cfg) of
              (success, R) \<Rightarrow>
                if success then (None, st\<lparr>redis := R\<rparr>)
                else if env cfg = production then
                  (Some (InfrastructureError INTERNAL_ERROR
                          ''Failed to save session to Redis in production''), st\<lparr>redis := R\<rparr>)
                else (None, st\<lparr>redis := R\<rparr>))
         else if env cfg = production then
           (Some (InfrastructureError INTERNAL_ERROR
                   (''Redis unavailable in production '' @ emDash @ '' cannot save session'')), st)
         else (None, st))
      in case saved of
           (Some e, st1) \<Rightarrow> (Some e, st1)
         | (None, st1) \<Rightarrow>
             if env cfg \<noteq> production
             then (None, st1\<lparr>memoryStore := (memoryStore st1)(phone \<mapsto> session)\<rparr>)
             else (None, st1))"

definition newSession :: "AppConfig \<Rightarrow> int \<Rightarrow> string \<Rightarrow> string \<Rightarrow> SessionData" where
  "newSession cfg t tenant phone =
     \<lparr>phoneNumber = phone, currentState = IDLE, cep = None, quantity = None,
      totalWeight = None, lastMessage = None, errorCount = Some 0, metadata = None,
      tenantId = tenant, createdAt = t, updatedAt = t, expiresAt = t + ttlMs cfg\<rparr>"

definition createSession ::
  "AppConfig \<Rightarrow> bool \<Rightarrow> SessionState \<Rightarrow> string \<Rightarrow> string
     \<Rightarrow> (error + SessionData) \<times> SessionState" where
  "createSession cfg setOk st tenant phone =
     (if tenant = [] then
        (Inl (BusinessError VALIDATION_ERROR ''tenant_id is required to create session''), st)
      else
        let session = newSession cfg (now st) tenant phone in
        case saveSession cfg setOk st tenant phone session of
          (Some e, st') \<Rightarrow> (Inl e, st')
        | (None, st') \<Rightarrow> (Inr session, st'))"

definition deleteSession ::
  "bool \<Rightarrow> SessionState \<Rightarrow> string \<Rightarrow> string \<Rightarrow> error option \<times> SessionState" where
  "deleteSession delOk st tenant phone =
     (if tenant = [] then
        (Some (BusinessError VALIDATION_ERROR ''tenant_id is required to delete session''), st)
      else
        let st1 = (if isAvailable (redis st)
                   then st\<lparr>redis := snd (redis_delete (redis st) delOk (getKey tenant phone))\<rparr>
                   else st)
        in (None, st1\<lparr>memoryStore := (memoryStore st1)(phone := None)\<rparr>))"

text \<open>Example: a backend that holds one session, stored before tenant scoping, under the legacy key.\<close>

definition legacySession :: SessionData where
  "legacySession =
     \<lparr>phoneNumber = ''5511999999999'', currentState = AWAITING_QUANTITY,
      cep = Some ''01001000'', quantity = None, totalWeight = None, lastMessage = None,
      errorCount = Some 2, metadata = None,
      tenantId = [], createdAt = 1000, updatedAt = 2000, expiresAt = 21601000\<rparr>"

definition legacyState :: SessionState where
  "legacyState =
     \<lparr>redis = \<lparr>isConnected = True, reachable = True,
                kv = [''session:5511999999999'' \<mapsto> (legacySession, 21000)]\<rparr>,
      memoryStore = Map.empty, now = 5000\<rparr>"

text \<open>The state without the legacy key: what \<open>getSession\<close> leaves when its \<open>DEL\<close> succeeds.\<close>

definition afterLegacyProbe :: "SessionState \<Rightarrow> string \<Rightarrow> SessionState" where
  "afterLegacyProbe st phone =
     st\<lparr>redis := (redis st)\<lparr>kv := (kv (redis st))(getOldKey phone := None)\<rparr>\<rparr>"

text \<open>The default configuration under the production profile.\<close>

definition productionConfig :: AppConfig where
  "productionConfig = defaultConfig\<lparr>env := production\<rparr>"

section \<open>Properties of the session manager\<close>

lemma getKey_neq_getOldKey: "getKey tenant phone \<noteq> getOldKey phone"
proof
  assume "getKey tenant phone = getOldKey phone"
  then have "length (getKey tenant phone) = length (getOldKey phone)" by simp
  then show False by (simp add: getKey_def getOldKey_def)
qed

text \<open>
  With a session under the legacy key only, \<open>getSession\<close> reports no session, and the
  state it leaves is the one without the legacy key exactly when the read of that key
  is answered and the \<open>DEL\<close> succeeds.  (The read of the tenant-scoped key returns
  \<open>null\<close> whether it is answered or not, there being nothing under that key.)
\<close>

lemma getSession_legacy_only:
  assumes "tenant \<noteq> []" and "isAvailable (redis st)"
    and "kv (redis st) (getKey tenant phone) = None"
    and "kv (redis st) (getOldKey phone) = Some (old, secs)"
  shows "getSession cfg delOk st tenant phone =
           (Inr None, if reachable (redis st) \<and> delOk then afterLegacyProbe st phone else st)"
  using assms
  by (simp add: getSession_def redis_get_def redis_delete_def afterLegacyProbe_def)

text \<open>
  \<open>createSession\<close> for a non-empty tenant id, with a configured client: the record is
  stored under the tenant-scoped key with the full time to live when the \<open>SET\<close>
  succeeds; when it fails, the production profile raises an \<open>InfrastructureError\<close> and
  the other profiles keep the record in the in-memory store only.
\<close>

lemma createSession_outcomes:
  assumes "tenant \<noteq> []" and "isAvailable (redis st)"
  shows "createSession cfg setOk st tenant phone =
     (if setOk then
        (Inr (newSession cfg (now st) tenant phone),
         (if env cfg \<noteq> production
          then st\<lparr>redis := (redis st)\<lparr>kv := (kv (redis st))(getKey tenant phone \<mapsto>
                      (newSession cfg (now st) tenant phone, ttlSeconds cfg))\<rparr>,
                  memoryStore := (memoryStore st)(phone \<mapsto> newSession cfg (now st) tenant phone)\<rparr>
          else st\<lparr>redis := (redis st)\<lparr>kv := (kv (redis st))(getKey tenant phone \<mapsto>
                      (newSession cfg (now st) tenant phone, ttlSeconds cfg))\<rparr>\<rparr>))
      else if env cfg = production then
        (Inl (InfrastructureError INTERNAL_ERROR ''Failed to save session to Redis in production''),
         st)
      else
        (Inr (newSession cfg (now st) tenant phone),
         st\<lparr>memoryStore := (memoryStore st)(phone \<mapsto> newSession cfg (now st) tenant phone)\<rparr>))"
  using assms
  by (simp add: createSession_def saveSession_def redis_set_def Let_def)

text \<open>
  C2, as stated, fails.  The backend holds a session under the legacy key only and the
  tenant id is \<open>lojacond-default\<close>.  When the \<open>DEL\<close> command fails, \<open>getSession\<close>
  returns \<open>null\<close> and the legacy key is still there (the result of \<open>delete\<close> is not
  looked at).  When the \<open>SET\<close> command fails under the production profile,
  \<open>createSession\<close> raises an \<open>InfrastructureError\<close> and produces no record.
\<close>

theorem C2_counterexample:
  "kv (redis legacyState) (getKey ''lojacond-default'' ''5511999999999'') = None
   \<and> kv (redis legacyState) (getOldKey ''5511999999999'') = Some (legacySession, 21000)
   \<and> getSession defaultConfig False legacyState ''lojacond-default'' ''5511999999999'' =
       (Inr None, legacyState)
   \<and> createSession productionConfig False (afterLegacyProbe legacyState ''5511999999999'')
        ''lojacond-default'' ''5511999999999'' =
       (Inl (InfrastructureError INTERNAL_ERROR ''Failed to save session to Redis in production''),
        afterLegacyProbe legacyState ''5511999999999'')"
  by (simp add: getSession_def createSession_def saveSession_def redis_get_def redis_delete_def
        redis_set_def isAvailable_def legacyState_def getKey_def getOldKey_def
        afterLegacyProbe_def productionConfig_def defaultConfig_def Let_def)

text \<open>
  C2, amended.  Let the tenant id be non-empty, the Redis client configured, and the
  backend hold no session under \<open>session:{tenantId}:{userId}\<close> and one under
  \<open>session:{userId}\<close>.  Then \<open>getSession\<close> returns \<open>null\<close>.  It leaves the backend
  without the legacy key when its read of that key is answered and its \<open>DEL\<close> command
  succeeds; when the read is not answered it deletes nothing.  \<open>createSession\<close>, called next
  at any time \<open>t\<close>, builds a record for that tenant and user in state \<open>IDLE\<close> with
  \<open>errorCount = 0\<close> and \<open>expiresAt = t + ttlMs\<close>.  When its \<open>SET\<close> command succeeds
  it returns the record, stored under the tenant-scoped key with the full time to live
  (\<open>ceil(ttlMs / 1000)\<close> seconds), and the legacy key is as \<open>getSession\<close> left it.
  When the \<open>SET\<close> fails, it raises an \<open>InfrastructureError\<close> under the production
  profile, and under the other profiles it returns the record, which is then in the
  in-memory store only.
\<close>

theorem C2_legacy_session_reset:
  assumes "tenant \<noteq> []" and "isAvailable (redis st)"
    and "kv (redis st) (getKey tenant phone) = None"
    and "kv (redis st) (getOldKey phone) = Some (old, secs)"
  shows "fst (getSession cfg delOk st tenant phone) = Inr None
     \<and> (reachable (redis st) \<and> delOk \<longrightarrow>
           snd (getSession cfg delOk st tenant phone) = afterLegacyProbe st phone
         \<and> kv (redis (snd (getSession cfg delOk st tenant phone))) (getOldKey phone) = None)
     \<and> (\<not> reachable (redis st) \<longrightarrow>
           snd (getSession cfg delOk st tenant phone) = st)
     \<and> (setOk \<longrightarrow>
           fst (createSession cfg setOk ((snd (getSession cfg delOk st tenant phone))\<lparr>now := t\<rparr>)
                  tenant phone) = Inr (newSession cfg t tenant phone)
         \<and> kv (redis (snd (createSession cfg setOk
                  ((snd (getSession cfg delOk st tenant phone))\<lparr>now := t\<rparr>) tenant phone)))
              (getKey tenant phone) = Some (newSession cfg t tenant phone, ttlSeconds cfg)
         \<and> kv (redis (snd (createSession cfg setOk
                  ((snd (getSession cfg delOk st tenant phone))\<lparr>now := t\<rparr>) tenant phone)))
              (getOldKey phone) =
             kv (redis (snd (getSession cfg delOk st tenant phone))) (getOldKey phone))
     \<and> (\<not> setOk \<and> env cfg = production \<longrightarrow>
           createSession cfg setOk ((snd (getSession cfg delOk st tenant phone))\<lparr>now := t\<rparr>)
             tenant phone =
           (Inl (InfrastructureError INTERNAL_ERROR ''Failed to save session to Redis in production''),
            (snd (getSession cfg delOk st tenant phone))\<lparr>now := t\<rparr>))
     \<and> (\<not> setOk \<and> env cfg \<noteq> production \<longrightarrow>
           fst (createSession cfg setOk ((snd (getSession cfg delOk st tenant phone))\<lparr>now := t\<rparr>)
                  tenant phone) = Inr (newSession cfg t tenant phone)
         \<and> redis (snd (createSession cfg setOk
                  ((snd (getSession cfg delOk st tenant phone))\<lparr>now := t\<rparr>) tenant phone)) =
             redis (snd (getSession cfg delOk st tenant phone))
         \<and> memoryStore (snd (createSession cfg setOk
                  ((snd (getSession cfg delOk st tenant phone))\<lparr>now := t\<rparr>) tenant phone)) phone =
             Some (newSession cfg t tenant phone))
     \<and> currentState (newSession cfg t tenant phone) = IDLE
     \<and> errorCount (newSession cfg t tenant phone) = Some 0
     \<and> tenantId (newSession cfg t tenant phone) = tenant
     \<and> phoneNumber (newSession cfg t tenant phone) = phone
     \<and> expiresAt (newSession cfg t tenant phone) = t + ttlMs cfg"
proof -
  let ?st1 = "snd (getSession cfg delOk st tenant phone)"
  have g: "getSession cfg delOk st tenant phone =
           (Inr None, if reachable (redis st) \<and> delOk then afterLegacyProbe st phone else st)"
    by (rule getSession_legacy_only[OF assms])
  have av: "isAvailable (redis (?st1\<lparr>now := t\<rparr>))"
    using assms(2) by (simp add: g afterLegacyProbe_def isAvailable_def)
  have neq: "getKey tenant phone \<noteq> getOldKey phone" by (rule getKey_neq_getOldKey)
  have c: "createSession cfg setOk (?st1\<lparr>now := t\<rparr>) tenant phone =
     (if setOk then
        (Inr (newSession cfg t tenant phone),
         (if env cfg \<noteq> production
          then (?st1\<lparr>now := t\<rparr>)\<lparr>redis := (redis ?st1)\<lparr>kv := (kv (redis ?st1))(getKey tenant phone \<mapsto>
                      (newSession cfg t tenant phone, ttlSeconds cfg))\<rparr>,
                  memoryStore := (memoryStore ?st1)(phone \<mapsto> newSession cfg t tenant phone)\<rparr>
          else (?st1\<lparr>now := t\<rparr>)\<lparr>redis := (redis ?st1)\<lparr>kv := (kv (redis ?st1))(getKey tenant phone \<mapsto>
                      (newSession cfg t tenant phone, ttlSeconds cfg))\<rparr>\<rparr>))
      else if env cfg = production then
        (Inl (InfrastructureError INTERNAL_ERROR ''Failed to save session to Redis in production''),
         ?st1\<lparr>now := t\<rparr>)
      else
        (Inr (newSession cfg t tenant phone),
         (?st1\<lparr>now := t\<rparr>)\<lparr>memoryStore := (memoryStore ?st1)(phone \<mapsto> newSession cfg t tenant phone)\<rparr>))"
    using createSession_outcomes[OF assms(1) av, of cfg setOk phone] by simp
  have p1: "fst (getSession cfg delOk st tenant phone) = Inr None" by (simp add: g)
  have p2: "reachable (redis st) \<and> delOk \<longrightarrow>
           ?st1 = afterLegacyProbe st phone \<and> kv (redis ?st1) (getOldKey phone) = None"
    unfolding g by (simp add: afterLegacyProbe_def)
  have p3: "\<not> reachable (redis st) \<longrightarrow> ?st1 = st" unfolding g by simp
  have p4: "setOk \<longrightarrow>
           fst (createSession cfg setOk (?st1\<lparr>now := t\<rparr>) tenant phone) =
             Inr (newSession cfg t tenant phone)
         \<and> kv (redis (snd (createSession cfg setOk (?st1\<lparr>now := t\<rparr>) tenant phone)))
              (getKey tenant phone) = Some (newSession cfg t tenant phone, ttlSeconds cfg)
         \<and> kv (redis (snd (createSession cfg setOk (?st1\<lparr>now := t\<rparr>) tenant phone)))
              (getOldKey phone) = kv (redis ?st1) (getOldKey phone)"
    unfolding c using neq by simp
  have p5: "\<not> setOk \<and> env cfg = production \<longrightarrow>
           createSession cfg setOk (?st1\<lparr>now := t\<rparr>) tenant phone =
           (Inl (InfrastructureError INTERNAL_ERROR ''Failed to save session to Redis in production''),
            ?st1\<lparr>now := t\<rparr>)"
    unfolding c by simp
  have p6: "\<not> setOk \<and> env cfg \<noteq> production \<longrightarrow>
           fst (createSession cfg setOk (?st1\<lparr>now := t\<rparr>) tenant phone) =
             Inr (newSession cfg t tenant phone)
         \<and> redis (snd (createSession cfg setOk (?st1\<lparr>now := t\<rparr>) tenant phone)) = redis ?st1
         \<and> memoryStore (snd (createSession cfg setOk (?st1\<lparr>now := t\<rparr>) tenant phone)) phone =
             Some (newSession cfg t tenant phone)"
    unfolding c by simp
  have p7: "currentState (newSession cfg t tenant phone) = IDLE
     \<and> errorCount (newSession cfg t tenant phone) = Some 0
     \<and> tenantId (newSession cfg t tenant phone) = tenant
     \<and> phoneNumber (newSession cfg t tenant phone) = phone
     \<and> expiresAt (newSession cfg t tenant phone) = t + ttlMs cfg"
    by (simp add: newSession_def)
  from p1 p2 p3 p4 p5 p6 p7 show ?thesis by blast
qed

text \<open>
  C2 on the tenant \<open>lojacond-default\<close> and a backend that holds a session under the
  legacy key only, every command succeeding: the legacy key is deleted and the new
  record, created at time 6000, is stored for 21600 seconds.
\<close>

theorem C2_legacy_session_reset_witness:
  "''lojacond-default'' \<noteq> [] \<and> isAvailable (redis legacyState)
   \<and> kv (redis legacyState) (getKey ''lojacond-default'' ''5511999999999'') = None
   \<and> kv (redis legacyState) (getOldKey ''5511999999999'') = Some (legacySession, 21000)
   \<and> reachable (redis legacyState)
   \<and> getSession defaultConfig True legacyState ''lojacond-default'' ''5511999999999'' =
        (Inr None, afterLegacyProbe legacyState ''5511999999999'')
   \<and> kv (redis (afterLegacyProbe legacyState ''5511999999999'')) ''session:5511999999999'' = None
   \<and> fst (createSession defaultConfig True
             ((afterLegacyProbe legacyState ''5511999999999'')\<lparr>now := 6000\<rparr>)
             ''lojacond-default'' ''5511999999999'') =
        Inr (newSession defaultConfig 6000 ''lojacond-default'' ''5511999999999'')
   \<and> kv (redis (snd (createSession defaultConfig True
             ((afterLegacyProbe legacyState ''5511999999999'')\<lparr>now := 6000\<rparr>)
             ''lojacond-default'' ''5511999999999'')))
        ''session:lojacond-default:5511999999999'' =
        Some (newSession defaultConfig 6000 ''lojacond-default'' ''5511999999999'', 21600)
   \<and> expiresAt (newSession defaultConfig 6000 ''lojacond-default'' ''5511999999999'') = 21606000"
proof -
  have h1: "''lojacond-default'' \<noteq> []" by simp
  have h2: "isAvailable (redis legacyState)" by (simp add: isAvailable_def legacyState_def)
  have h3: "kv (redis legacyState) (getKey ''lojacond-default'' ''5511999999999'') = None"
    by (simp add: legacyState_def getKey_def)
  have h4: "kv (redis legacyState) (getOldKey ''5511999999999'') = Some (legacySession, 21000)"
    by (simp add: legacyState_def getOldKey_def)
  have r: "reachable (redis legacyState)" by (simp add: legacyState_def)
  have s: "ttlSeconds defaultConfig = 21600" by (simp add: ttlSeconds_def defaultConfig_def)
  have g: "getSession defaultConfig True legacyState ''lojacond-default'' ''5511999999999'' =
        (Inr None, afterLegacyProbe legacyState ''5511999999999'')"
    using C2_legacy_session_reset [OF h1 h2 h3 h4, of defaultConfig True True 6000] r
    by (metis prod.collapse)
  from C2_legacy_session_reset [OF h1 h2 h3 h4, of defaultConfig True True 6000] h1 h2 h3 h4 r g s
  show ?thesis by (simp add: getOldKey_def getKey_def defaultConfig_def)
qed

section \<open>Intent classifier\<close>

text \<open>
  The text of a message is a JavaScript string: a list of UTF-16 code units.
  \<open>js\<close> writes an ASCII literal as such a list.
\<close>

type_synonym jsstring = "nat list"

definition js :: "string \<Rightarrow> jsstring" where
  "js s = map of_char s"

text \<open>The intent \<open>RESET\<close> is \<open>RESET_INTENT\<close> here, the event \<open>RESET\<close> having taken the name.\<close>

datatype UserIntent =
    FREIGHT_QUERY | PROVIDE_CEP | PROVIDE_QUANTITY | RESET_INTENT | HELP | CANCEL
  | TRACK_ORDER | PAYMENT_STATUS | HUMAN_SUPPORT | UNKNOWN

record ExtractedData =
  cep :: "jsstring option"
  quantity :: "number option"

record IntentResult =
  intent :: UserIntent
  confidence :: number
  extractedData :: "ExtractedData option"

text \<open>
  \<open>String.prototype.toLowerCase\<close> and \<open>String.prototype.normalize('NFD')\<close> are
  functions of the JavaScript library, driven by the Unicode tables: the model takes
  them as parameters.  \<open>asciiText\<close> is what they do on ASCII text: upper-case letters
  are mapped to lower case, and the canonical decomposition changes nothing.
\<close>

record Unicode =
  toLowerCase :: "jsstring \<Rightarrow> jsstring"
  normalizeNFD :: "jsstring \<Rightarrow> jsstring"

definition asciiText :: Unicode where
  "asciiText =
     \<lparr>toLowerCase = map (\<lambda>c. if 65 \<le> c \<and> c \<le> 90 then c + 32 else c),
      normalizeNFD = (\<lambda>s. s)\<rparr>"

text \<open>\<open>trim\<close> removes white space and line terminators at both ends.\<close>

definition isWhiteSpace :: "nat \<Rightarrow> bool" where
  "isWhiteSpace c =
     (c \<in> set [0x9, 0xA, 0xB, 0xC, 0xD, 0x20, 0xA0, 0x1680, 0x2028, 0x2029, 0x202F, 0x205F,
                0x3000, 0xFEFF]
      \<or> (0x2000 \<le> c \<and> c \<le> 0x200A))"

definition trim :: "jsstring \<Rightarrow> jsstring" where
  "trim s = rev (dropWhile isWhiteSpace (rev (dropWhile isWhiteSpace s)))"

text \<open>\<open>replace\<close> with the class U+0300 to U+036F: the combining diacritical marks are removed.\<close>

definition isCombiningMark :: "nat \<Rightarrow> bool" where
  "isCombiningMark c = (0x300 \<le> c \<and> c \<le> 0x36F)"

definition normalize_msg :: "Unicode \<Rightarrow> jsstring \<Rightarrow> jsstring" where
  "normalize_msg U message =
     filter (\<lambda>c. \<not> isCombiningMark c) (normalizeNFD U (trim (toLowerCase U message)))"

text \<open>
  \<open>message.includes(kw)\<close>: \<open>kw\<close> occurs in \<open>message\<close> as a contiguous substring.
  \<open>someIncluded\<close> is \<open>keywords.some((kw) => message.includes(kw))\<close>.  The accented
  letters of four keywords are written by their code units.
\<close>

fun includes_str :: "jsstring \<Rightarrow> jsstring \<Rightarrow> bool" where
  "includes_str [] kw = (kw = [])"
| "includes_str (c # cs) kw = (take (length kw) (c # cs) = kw \<or> includes_str cs kw)"

definition someIncluded :: "jsstring list \<Rightarrow> jsstring \<Rightarrow> bool" where
  "someIncluded keywords message = list_ex (\<lambda>kw. includes_str message kw) keywords"

definition isFreightQuery :: "jsstring \<Rightarrow> bool" where
  "isFreightQuery message =
     someIncluded
       [js ''frete'', js ''cotacao'', js ''cota'' @ [0xE7, 0xE3] @ js ''o'', js ''envio'',
        js ''entrega'', js ''shipping'', js ''freight'', js ''quanto custa'',
        js ''valor do frete'', js ''calcular frete''] message"

definition isResetIntent :: "jsstring \<Rightarrow> bool" where
  "isResetIntent message =
     someIncluded
       [js ''reiniciar'', js ''recomecar'', js ''restart'', js ''reset'', js ''voltar'',
        js ''comecar de novo''] message"

definition isCancelIntent :: "jsstring \<Rightarrow> bool" where
  "isCancelIntent message =
     someIncluded [js ''cancelar'', js ''cancel'', js ''sair'', js ''parar'', js ''stop''] message"

definition isHelpIntent :: "jsstring \<Rightarrow> bool" where
  "isHelpIntent message =
     someIncluded
       [js ''ajuda'', js ''help'', js ''socorro'', js ''como funciona'', js ''nao entendi'',
        js ''n'' @ [0xE3] @ js ''o entendi''] message"

definition isTrackingQuery :: "jsstring \<Rightarrow> bool" where
  "isTrackingQuery message =
     someIncluded
       [js ''rastrear'', js ''rastreio'', js ''tracking'', js ''onde esta'',
        js ''onde est'' @ [0xE1], js ''status do pedido''] message"

definition isPaymentQuery :: "jsstring \<Rightarrow> bool" where
  "isPaymentQuery message =
     someIncluded
       [js ''pagamento'', js ''payment'', js ''boleto'', js ''pix'', js ''pagar'',
        js ''segunda via''] message"

definition isHumanSupportRequest :: "jsstring \<Rightarrow> bool" where
  "isHumanSupportRequest message =
     someIncluded
       [js ''atendente'', js ''humano'', js ''pessoa'', js ''falar com alguem'',
        js ''falar com algu'' @ [0xE9] @ js ''m'', js ''human'', js ''agent''] message"

text \<open>
  The regular expressions.  \<open>\d\<close> is an ASCII digit; a word character is an ASCII
  letter, a digit or the underscore; \<open>\b\<close> holds between two positions exactly one
  of which is a word character (the outside of the string is not one).
\<close>

definition isDigit :: "nat \<Rightarrow> bool" where
  "isDigit c = (48 \<le> c \<and> c \<le> 57)"

definition isWordChar :: "nat \<Rightarrow> bool" where
  "isWordChar c = (isDigit c \<or> (65 \<le> c \<and> c \<le> 90) \<or> (97 \<le> c \<and> c \<le> 122) \<or> c = 95)"

definition isWord :: "nat option \<Rightarrow> bool" where
  "isWord c = (case c of None \<Rightarrow> False | Some x \<Rightarrow> isWordChar x)"

definition wordBoundary :: "nat option \<Rightarrow> nat option \<Rightarrow> bool" where
  "wordBoundary prev next = (isWord prev \<noteq> isWord next)"

definition nextChar :: "jsstring \<Rightarrow> nat option" where
  "nextChar s = (case s of [] \<Rightarrow> None | c # cs \<Rightarrow> Some c)"

text \<open>\<open>\d{k}\<close> at the start of \<open>s\<close>: the digits matched and the rest.\<close>

definition matchDigits :: "nat \<Rightarrow> jsstring \<Rightarrow> (jsstring \<times> jsstring) option" where
  "matchDigits k s =
     (if k \<le> length s \<and> list_all isDigit (take k s) then Some (take k s, drop k s) else None)"

text \<open>
  \<open>-?\<close> takes a hyphen when there is one.  Backtracking to the empty match cannot
  succeed, since \<open>\d{3}\<close> would then have to start at the hyphen.
\<close>

definition matchOptHyphen :: "jsstring \<Rightarrow> jsstring" where
  "matchOptHyphen s = (case s of [] \<Rightarrow> s | c # cs \<Rightarrow> if c = 45 then cs else s)"

text \<open>
  \<open>/\b(\d{5})-?(\d{3})\b/\<close> tried at one position: \<open>prev\<close> is the code unit before
  the position, \<open>s\<close> the text from the position on.  The result is \<open>match[1] + match[2]\<close>.
\<close>

definition cepAt :: "nat option \<Rightarrow> jsstring \<Rightarrow> jsstring option" where
  "cepAt prev s =
     (if \<not> wordBoundary prev (nextChar s) then None
      else case matchDigits 5 s of
             None \<Rightarrow> None
           | Some (g1, r1) \<Rightarrow>
               (case matchDigits 3 (matchOptHyphen r1) of
                  None \<Rightarrow> None
                | Some (g2, r2) \<Rightarrow>
                    if wordBoundary (Some (last g2)) (nextChar r2) then Some (g1 @ g2) else None))"

text \<open>\<open>message.match(cepRegex)\<close>: the positions are tried from left to right.\<close>

fun scanCEP :: "nat option \<Rightarrow> jsstring \<Rightarrow> jsstring option" where
  "scanCEP prev [] = cepAt prev []"
| "scanCEP prev (c # cs) =
     (case cepAt prev (c # cs) of Some r \<Rightarrow> Some r | None \<Rightarrow> scanCEP (Some c) cs)"

definition extractCEP :: "jsstring \<Rightarrow> jsstring option" where
  "extractCEP message = scanCEP None message"

text \<open>
  \<open>/\b(\d{1,4})\b/\<close> tried at one position: the greedy quantifier tries four digits
  first, then three, two and one.
\<close>

definition digitsThenBoundary :: "nat \<Rightarrow> jsstring \<Rightarrow> jsstring option" where
  "digitsThenBoundary k s =
     (case matchDigits k s of
        None \<Rightarrow> None
      | Some (g, r) \<Rightarrow> if wordBoundary (Some (last g)) (nextChar r) then Some g else None)"

definition quantityAt :: "nat option \<Rightarrow> jsstring \<Rightarrow> jsstring option" where
  "quantityAt prev s =
     (if \<not> wordBoundary prev (nextChar s) then None
      else case List.find (\<lambda>k. digitsThenBoundary k s \<noteq> None) [4, 3, 2, 1] of
             None \<Rightarrow> None
           | Some k \<Rightarrow> digitsThenBoundary k s)"

fun scanQuantity :: "nat option \<Rightarrow> jsstring \<Rightarrow> jsstring option" where
  "scanQuantity prev [] = quantityAt prev []"
| "scanQuantity prev (c # cs) =
     (case quantityAt prev (c # cs) of Some r \<Rightarrow> Some r | None \<Rightarrow> scanQuantity (Some c) cs)"

text \<open>\<open>parseInt(digits, 10)\<close> on a string of digits.\<close>

definition parseInt :: "jsstring \<Rightarrow> number" where
  "parseInt ds = of_nat (foldl (\<lambda>n c. 10 * n + (c - 48)) 0 ds)"

definition extractQuantity :: "jsstring \<Rightarrow> number option" where
  "extractQuantity message =
     (case scanQuantity None message of
        None \<Rightarrow> None
      | Some ds \<Rightarrow>
          (let quantity = parseInt ds in
           if quantity > 0 \<and> quantity < 10000 then Some quantity else None))"

text \<open>\<open>classify\<close>.  Its second argument, \<open>currentState\<close>, only goes to the log.\<close>

definition plainResult :: "UserIntent \<Rightarrow> number \<Rightarrow> IntentResult" where
  "plainResult i c = \<lparr>intent = i, confidence = c, extractedData = None\<rparr>"

definition classifyNormalized :: "jsstring \<Rightarrow> IntentResult" where
  "classifyNormalized normalized =
     (if isResetIntent normalized then plainResult RESET_INTENT 1
      else if isCancelIntent normalized then plainResult CANCEL 1
      else if isHelpIntent normalized then plainResult HELP 1
      else case extractCEP normalized of
        Some c \<Rightarrow>
          \<lparr>intent = PROVIDE_CEP, confidence = 1,
            extractedData = Some \<lparr>cep = Some c, quantity = None\<rparr>\<rparr>
      | None \<Rightarrow>
         (case extractQuantity normalized of
            Some q \<Rightarrow>
              \<lparr>intent = PROVIDE_QUANTITY, confidence = 1,
                extractedData = Some \<lparr>cep = None, quantity = Some q\<rparr>\<rparr>
          | None \<Rightarrow>
              if isFreightQuery normalized then plainResult FREIGHT_QUERY (9 / 10)
              else if isTrackingQuery normalized then plainResult TRACK_ORDER (8 / 10)
              else if isPaymentQuery normalized then plainResult PAYMENT_STATUS (8 / 10)
              else if isHumanSupportRequest normalized then plainResult HUMAN_SUPPORT (9 / 10)
              else plainResult UNKNOWN 0))"

definition classify :: "Unicode \<Rightarrow> jsstring \<Rightarrow> IntentResult" where
  "classify U message = classifyNormalized (normalize_msg U message)"

text \<open>
  An occurrence of the pattern \<open>\d{5}-?\d{3}\<close> in a text, as the specification words
  it: the text is \<open>pre\<close>, five digits, an optional hyphen, three digits, \<open>post\<close>.  It
  is delimited when no word character stands right before or right after it.
\<close>

definition cepOccurrence ::
  "jsstring \<Rightarrow> jsstring \<Rightarrow> jsstring \<Rightarrow> jsstring \<Rightarrow> jsstring \<Rightarrow> jsstring \<Rightarrow> bool" where
  "cepOccurrence text pre d5 hy d3 post =
     (text = pre @ d5 @ hy @ d3 @ post
      \<and> length d5 = 5 \<and> list_all isDigit d5
      \<and> (hy = [] \<or> hy = [45])
      \<and> length d3 = 3 \<and> list_all isDigit d3)"

definition delimited :: "jsstring \<Rightarrow> jsstring \<Rightarrow> bool" where
  "delimited pre post =
     ((pre = [] \<or> \<not> isWordChar (last pre)) \<and> (post = [] \<or> \<not> isWordChar (hd post)))"

text \<open>The code unit before a position: the last one of the prefix, or \<open>prev\<close> at the start.\<close>

definition lastOr :: "nat option \<Rightarrow> jsstring \<Rightarrow> nat option" where
  "lastOr prev pre = (if pre = [] then prev else Some (last pre))"

section \<open>Properties of the intent classifier\<close>

lemmas classifier_eval = js_def normalize_msg_def asciiText_def trim_def isWhiteSpace_def
  isCombiningMark_def isResetIntent_def isCancelIntent_def isHelpIntent_def isFreightQuery_def
  isTrackingQuery_def isPaymentQuery_def isHumanSupportRequest_def someIncluded_def
  classify_def classifyNormalized_def extractCEP_def extractQuantity_def cepAt_def
  quantityAt_def digitsThenBoundary_def matchDigits_def matchOptHyphen_def wordBoundary_def
  isWord_def isWordChar_def isDigit_def nextChar_def plainResult_def parseInt_def

lemma matchDigits_Some:
  "matchDigits k s = Some (g, r) \<longleftrightarrow> (s = g @ r \<and> length g = k \<and> list_all isDigit g)"
  by (auto simp: matchDigits_def min_def)

lemma isDigit_isWordChar: "isDigit c \<Longrightarrow> isWordChar c"
  by (simp add: isWordChar_def)

lemma not_isDigit_hyphen: "\<not> isDigit 45"
  by (simp add: isDigit_def)

lemma digits_nonempty_word:
  "list_all isDigit g \<Longrightarrow> g \<noteq> [] \<Longrightarrow> isWord (nextChar (g @ r)) \<and> isWordChar (last g)"
  by (cases g) (auto simp: nextChar_def isWord_def isDigit_isWordChar list_all_iff)

lemma matchOptHyphen_cases:
  "\<exists>hy. (hy = [] \<or> hy = [45]) \<and> r = hy @ matchOptHyphen r"
  by (cases r) (auto simp: matchOptHyphen_def)

lemma matchOptHyphen_digits:
  "list_all isDigit d3 \<Longrightarrow> d3 \<noteq> [] \<Longrightarrow> hy = [] \<or> hy = [45] \<Longrightarrow>
     matchOptHyphen (hy @ d3 @ post) = d3 @ post"
  by (cases d3) (auto simp: matchOptHyphen_def not_isDigit_hyphen)

lemma cepAt_Some_iff:
  "cepAt prev s = Some c \<longleftrightarrow>
     (\<exists>d5 hy d3 post. s = d5 @ hy @ d3 @ post \<and> length d5 = 5 \<and> list_all isDigit d5
        \<and> (hy = [] \<or> hy = [45]) \<and> length d3 = 3 \<and> list_all isDigit d3
        \<and> \<not> isWord prev \<and> \<not> isWord (nextChar post) \<and> c = d5 @ d3)"
  (is "?L \<longleftrightarrow> ?R")
proof
  assume L: ?L
  then have wb: "wordBoundary prev (nextChar s)"
    by (auto simp: cepAt_def split: if_splits)
  from L wb obtain g1 r1 where m1: "matchDigits 5 s = Some (g1, r1)"
    by (auto simp: cepAt_def split: option.splits)
  from L wb m1 obtain g2 r2 where m2: "matchDigits 3 (matchOptHyphen r1) = Some (g2, r2)"
    by (auto simp: cepAt_def split: option.splits)
  from L wb m1 m2 have rb: "wordBoundary (Some (last g2)) (nextChar r2)" and c: "c = g1 @ g2"
    by (auto simp: cepAt_def split: if_splits)
  from m1 have s: "s = g1 @ r1" "length g1 = 5" "list_all isDigit g1"
    by (simp_all add: matchDigits_Some)
  from m2 have r: "matchOptHyphen r1 = g2 @ r2" "length g2 = 3" "list_all isDigit g2"
    by (simp_all add: matchDigits_Some)
  obtain hy where hy: "hy = [] \<or> hy = [45]" "r1 = hy @ matchOptHyphen r1"
    using matchOptHyphen_cases by blast
  have g1ne: "g1 \<noteq> []" and g2ne: "g2 \<noteq> []" using s r by auto
  have "isWord (nextChar s)" using digits_nonempty_word[OF s(3) g1ne] s(1) by simp
  with wb have p: "\<not> isWord prev" by (simp add: wordBoundary_def)
  have "isWordChar (last g2)" using digits_nonempty_word[OF r(3) g2ne] by simp
  with rb have q: "\<not> isWord (nextChar r2)" by (simp add: wordBoundary_def isWord_def)
  have "s = g1 @ hy @ g2 @ r2" using s(1) hy(2) r(1) by simp
  with s r hy p q c show ?R by blast
next
  assume ?R
  then obtain d5 hy d3 post where d: "s = d5 @ hy @ d3 @ post" "length d5 = 5"
      "list_all isDigit d5" "hy = [] \<or> hy = [45]" "length d3 = 3" "list_all isDigit d3"
      "\<not> isWord prev" "\<not> isWord (nextChar post)" "c = d5 @ d3"
    by blast
  have d5ne: "d5 \<noteq> []" and d3ne: "d3 \<noteq> []" using d by auto
  have "isWord (nextChar s)" using digits_nonempty_word[OF d(3) d5ne] d(1) by simp
  with d(7) have wb: "wordBoundary prev (nextChar s)" by (simp add: wordBoundary_def)
  have m1: "matchDigits 5 s = Some (d5, hy @ d3 @ post)"
    using d by (simp add: matchDigits_Some)
  have m2: "matchDigits 3 (matchOptHyphen (hy @ d3 @ post)) = Some (d3, post)"
    using d d3ne by (simp add: matchOptHyphen_digits matchDigits_Some)
  have "isWordChar (last d3)" using digits_nonempty_word[OF d(6) d3ne] by simp
  with d(8) have rb: "wordBoundary (Some (last d3)) (nextChar post)"
    by (simp add: wordBoundary_def isWord_def)
  show ?L using wb m1 m2 rb d(9) by (simp add: cepAt_def)
qed

lemma scanCEP_complete:
  "cepAt (lastOr prev pre) rest = Some c \<Longrightarrow> \<exists>c'. scanCEP prev (pre @ rest) = Some c'"
proof (induction pre arbitrary: prev)
  case Nil
  then show ?case by (cases rest) (auto simp: lastOr_def)
next
  case (Cons x pre)
  have "lastOr (Some x) pre = lastOr prev (x # pre)" by (simp add: lastOr_def)
  with Cons.prems have "cepAt (lastOr (Some x) pre) rest = Some c" by simp
  from Cons.IH[OF this] show ?case by (auto split: option.splits)
qed

lemma scanCEP_sound:
  "scanCEP prev s = Some c \<Longrightarrow>
     \<exists>pre rest. s = pre @ rest \<and> cepAt (lastOr prev pre) rest = Some c"
proof (induction s arbitrary: prev)
  case Nil
  then have "cepAt (lastOr prev []) [] = Some c" by (simp add: lastOr_def)
  then show ?case by blast
next
  case (Cons x s)
  show ?case
  proof (cases "cepAt prev (x # s)")
    case (Some r)
    with Cons.prems have "cepAt (lastOr prev []) (x # s) = Some c" by (simp add: lastOr_def)
    then show ?thesis by (metis append_Nil)
  next
    case None
    with Cons.prems have "scanCEP (Some x) s = Some c" by simp
    from Cons.IH[OF this] obtain pre rest where
      "s = pre @ rest" "cepAt (lastOr (Some x) pre) rest = Some c" by blast
    moreover have "lastOr (Some x) pre = lastOr prev (x # pre)" by (simp add: lastOr_def)
    ultimately have "x # s = (x # pre) @ rest \<and> cepAt (lastOr prev (x # pre)) rest = Some c"
      by simp
    then show ?thesis by blast
  qed
qed

lemma delimited_boundaries:
  "delimited pre post \<longleftrightarrow> (\<not> isWord (lastOr None pre) \<and> \<not> isWord (nextChar post))"
  by (cases post) (auto simp: delimited_def lastOr_def isWord_def nextChar_def)

lemma extractCEP_complete:
  assumes "cepOccurrence text pre d5 hy d3 post" and "delimited pre post"
  shows "\<exists>c. extractCEP text = Some c"
proof -
  have "cepAt (lastOr None pre) (d5 @ hy @ d3 @ post) = Some (d5 @ d3)"
    using assms unfolding cepAt_Some_iff cepOccurrence_def delimited_boundaries by blast
  from scanCEP_complete[OF this] show ?thesis
    using assms(1) by (simp add: extractCEP_def cepOccurrence_def)
qed

lemma extractCEP_sound:
  assumes "extractCEP text = Some c"
  shows "\<exists>pre d5 hy d3 post. cepOccurrence text pre d5 hy d3 post \<and> delimited pre post
            \<and> c = d5 @ d3"
proof -
  from assms obtain pre rest where pr: "text = pre @ rest" "cepAt (lastOr None pre) rest = Some c"
    using scanCEP_sound unfolding extractCEP_def by blast
  from pr(2) obtain d5 hy d3 post where d: "rest = d5 @ hy @ d3 @ post" "length d5 = 5"
      "list_all isDigit d5" "hy = [] \<or> hy = [45]" "length d3 = 3" "list_all isDigit d3"
      "\<not> isWord (lastOr None pre)" "\<not> isWord (nextChar post)" "c = d5 @ d3"
    unfolding cepAt_Some_iff by blast
  have "cepOccurrence text pre d5 hy d3 post" using pr(1) d by (simp add: cepOccurrence_def)
  moreover have "delimited pre post" using d by (simp add: delimited_boundaries)
  ultimately show ?thesis using d(9) by blast
qed


lemma scanCEP_leftmost:
  "scanCEP prev s = Some c \<Longrightarrow>
     \<exists>pre rest. s = pre @ rest \<and> cepAt (lastOr prev pre) rest = Some c
        \<and> (\<forall>pre2 rest2. s = pre2 @ rest2 \<and> length pre2 < length pre
              \<longrightarrow> cepAt (lastOr prev pre2) rest2 = None)"
proof (induction s arbitrary: prev)
  case Nil
  then have "cepAt (lastOr prev []) [] = Some c" by (simp add: lastOr_def)
  then show ?case by fastforce
next
  case (Cons x s)
  show ?case
  proof (cases "cepAt prev (x # s)")
    case (Some r)
    with Cons.prems have "cepAt (lastOr prev []) (x # s) = Some c" by (simp add: lastOr_def)
    then have "x # s = [] @ (x # s) \<and> cepAt (lastOr prev []) (x # s) = Some c
        \<and> (\<forall>pre2 rest2. x # s = pre2 @ rest2 \<and> length pre2 < length ([] :: jsstring)
              \<longrightarrow> cepAt (lastOr prev pre2) rest2 = None)"
      by simp
    then show ?thesis by blast
  next
    case None
    with Cons.prems have "scanCEP (Some x) s = Some c" by simp
    from Cons.IH[OF this] obtain pre rest where ih: "s = pre @ rest"
      "cepAt (lastOr (Some x) pre) rest = Some c"
      "\<forall>pre2 rest2. s = pre2 @ rest2 \<and> length pre2 < length pre
          \<longrightarrow> cepAt (lastOr (Some x) pre2) rest2 = None"
      by blast
    have eq: "\<And>p. lastOr (Some x) p = lastOr prev (x # p)" by (simp add: lastOr_def)
    have left: "cepAt (lastOr prev pre2) rest2 = None"
      if "x # s = pre2 @ rest2" and "length pre2 < length (x # pre)" for pre2 rest2
    proof (cases pre2)
      case Nil
      with that None show ?thesis by (simp add: lastOr_def)
    next
      case (Cons y p)
      with that have "s = p @ rest2" "length p < length pre" "y = x" by auto
      with ih(3) have "cepAt (lastOr (Some x) p) rest2 = None" by blast
      with Cons \<open>y = x\<close> eq show ?thesis by simp
    qed
    have "x # s = (x # pre) @ rest" using ih(1) by simp
    moreover have "cepAt (lastOr prev (x # pre)) rest = Some c" using ih(2) eq by simp
    ultimately show ?thesis using left by blast
  qed
qed

text \<open>
  C9, amended.  Let the normalised text contain no reset, cancel or help keyword.  If
  the pattern \<open>\d{5}-?\d{3}\<close> occurs in it delimited by word boundaries (no letter,
  digit or underscore right before or right after), then \<open>classify\<close> returns
  \<open>PROVIDE_CEP\<close> with confidence 1 and the eight digits of the leftmost such
  occurrence, whatever freight, tracking or payment keywords the text also contains.
\<close>

theorem C9_delimited_postal_code_first:
  assumes "\<not> isResetIntent (normalize_msg U m)"
    and "\<not> isCancelIntent (normalize_msg U m)"
    and "\<not> isHelpIntent (normalize_msg U m)"
    and "cepOccurrence (normalize_msg U m) pre d5 hy d3 post"
    and "delimited pre post"
  shows "\<exists>c pre' d5' hy' d3' post'.
           classify U m =
             \<lparr>intent = PROVIDE_CEP, confidence = 1,
               extractedData = Some \<lparr>cep = Some c, quantity = None\<rparr>\<rparr>
         \<and> length c = 8 \<and> list_all isDigit c
         \<and> cepOccurrence (normalize_msg U m) pre' d5' hy' d3' post' \<and> delimited pre' post'
         \<and> c = d5' @ d3' \<and> length pre' \<le> length pre"
proof -
  let ?n = "normalize_msg U m"
  obtain c where c: "extractCEP ?n = Some c"
    using extractCEP_complete[OF assms(4,5)] by blast
  then obtain pre' rest where pr: "?n = pre' @ rest" "cepAt (lastOr None pre') rest = Some c"
      and left: "\<forall>pre2 rest2. ?n = pre2 @ rest2 \<and> length pre2 < length pre'
              \<longrightarrow> cepAt (lastOr None pre2) rest2 = None"
    using scanCEP_leftmost unfolding extractCEP_def by blast
  from pr(2) obtain d5' hy' d3' post' where d: "rest = d5' @ hy' @ d3' @ post'" "length d5' = 5"
      "list_all isDigit d5'" "hy' = [] \<or> hy' = [45]" "length d3' = 3" "list_all isDigit d3'"
      "\<not> isWord (lastOr None pre')" "\<not> isWord (nextChar post')" "c = d5' @ d3'"
    unfolding cepAt_Some_iff by blast
  have occ: "cepOccurrence ?n pre' d5' hy' d3' post'"
    using pr(1) d by (simp add: cepOccurrence_def)
  have del: "delimited pre' post'" using d by (simp add: delimited_boundaries)
  have given: "cepAt (lastOr None pre) (d5 @ hy @ d3 @ post) = Some (d5 @ d3)"
    using assms(4,5) unfolding cepAt_Some_iff cepOccurrence_def delimited_boundaries by blast
  have le: "length pre' \<le> length pre"
  proof (rule ccontr)
    assume "\<not> length pre' \<le> length pre"
    then have "length pre < length pre'" by simp
    moreover have "?n = pre @ (d5 @ hy @ d3 @ post)" using assms(4) by (simp add: cepOccurrence_def)
    ultimately have "cepAt (lastOr None pre) (d5 @ hy @ d3 @ post) = None" using left by blast
    with given show False by simp
  qed
  have cls: "classify U m =
      \<lparr>intent = PROVIDE_CEP, confidence = 1,
        extractedData = Some \<lparr>cep = Some c, quantity = None\<rparr>\<rparr>"
    using assms(1-3) c by (simp add: classify_def classifyNormalized_def)
  have "length c = 8" "list_all isDigit c" using d by simp_all
  with cls occ del d(9) le show ?thesis by blast
qed

text \<open>
  C9 on the message \<open>Frete para 01001-000\<close>: it contains the freight keyword
  \<open>frete\<close>, and it is classified by its postal code.
\<close>

theorem C9_delimited_postal_code_first_witness:
  "\<not> isResetIntent (normalize_msg asciiText (js ''Frete para 01001-000''))
   \<and> \<not> isCancelIntent (normalize_msg asciiText (js ''Frete para 01001-000''))
   \<and> \<not> isHelpIntent (normalize_msg asciiText (js ''Frete para 01001-000''))
   \<and> cepOccurrence (normalize_msg asciiText (js ''Frete para 01001-000''))
        (js ''frete para '') (js ''01001'') (js ''-'') (js ''000'') []
   \<and> delimited (js ''frete para '') []
   \<and> isFreightQuery (normalize_msg asciiText (js ''Frete para 01001-000''))
   \<and> classify asciiText (js ''Frete para 01001-000'') =
        \<lparr>intent = PROVIDE_CEP, confidence = 1,
          extractedData = Some \<lparr>cep = Some (js ''01001000''), quantity = None\<rparr>\<rparr>"
proof -
  have h1: "\<not> isResetIntent (normalize_msg asciiText (js ''Frete para 01001-000''))"
    by (simp add: classifier_eval)
  have h2: "\<not> isCancelIntent (normalize_msg asciiText (js ''Frete para 01001-000''))"
    by (simp add: classifier_eval)
  have h3: "\<not> isHelpIntent (normalize_msg asciiText (js ''Frete para 01001-000''))"
    by (simp add: classifier_eval)
  have h4: "cepOccurrence (normalize_msg asciiText (js ''Frete para 01001-000''))
        (js ''frete para '') (js ''01001'') (js ''-'') (js ''000'') []"
    by (simp add: classifier_eval cepOccurrence_def)
  have h5: "delimited (js ''frete para '') []"
    by (simp add: classifier_eval delimited_def)
  have f: "isFreightQuery (normalize_msg asciiText (js ''Frete para 01001-000''))"
    by (simp add: classifier_eval)
  have e: "extractCEP (normalize_msg asciiText (js ''Frete para 01001-000'')) = Some (js ''01001000'')"
    by (simp add: classifier_eval)
  from C9_delimited_postal_code_first [OF h1 h2 h3 h4 h5] h1 h2 h3 e
  have "classify asciiText (js ''Frete para 01001-000'') =
        \<lparr>intent = PROVIDE_CEP, confidence = 1,
          extractedData = Some \<lparr>cep = Some (js ''01001000''), quantity = None\<rparr>\<rparr>"
    by (auto simp: classify_def classifyNormalized_def)
  with h1 h2 h3 h4 h5 f show ?thesis by blast
qed

text \<open>
  C9, as stated, fails: the text \<open>123456789\<close> contains no reset, cancel or help
  keyword, the pattern \<open>\d{5}-?\d{3}\<close> occurs in it (\<open>12345\<close>, \<open>678\<close>, followed by
  \<open>9\<close>), and \<open>classify\<close> returns \<open>UNKNOWN\<close>: the regular expression of the code
  asks for a word boundary on both sides.
\<close>

theorem C9_counterexample:
  "normalize_msg asciiText (js ''123456789'') = js ''123456789''
   \<and> \<not> isResetIntent (js ''123456789'') \<and> \<not> isCancelIntent (js ''123456789'')
   \<and> \<not> isHelpIntent (js ''123456789'')
   \<and> cepOccurrence (js ''123456789'') [] (js ''12345'') [] (js ''678'') (js ''9'')
   \<and> classify asciiText (js ''123456789'') =
        \<lparr>intent = UNKNOWN, confidence = 0, extractedData = None\<rparr>"
  by (simp add: classifier_eval cepOccurrence_def)

section \<open>Ranking engine\<close>

text \<open>
  \<open>Array.prototype.sort\<close> with a comparator.  The sort is stable, and the comparators
  of this program are differences of finite numbers, hence consistent: the result is
  the stable sort by the comparator, here by insertion (an element goes before the
  first element it does not exceed, seen from the right end of the array).
\<close>

fun insertBy :: "('a \<Rightarrow> 'a \<Rightarrow> number) \<Rightarrow> 'a \<Rightarrow> 'a list \<Rightarrow> 'a list" where
  "insertBy cmp x [] = [x]"
| "insertBy cmp x (y # ys) = (if cmp x y \<le> 0 then x # y # ys else y # insertBy cmp x ys)"

definition sortBy :: "('a \<Rightarrow> 'a \<Rightarrow> number) \<Rightarrow> 'a list \<Rightarrow> 'a list" where
  "sortBy cmp xs = foldr (insertBy cmp) xs []"

text \<open>\<open>src/types/freight.ts\<close>.\<close>

datatype FreightSource = melhor_envio | tabela | manual

record EconomicMetrics =
  netRevenue :: number
  profit :: number
  marginPercent :: number

text \<open>
  \<open>FreightOption\<close> of \<open>types/freight.ts\<close>, called \<open>RankingOption\<close> here to keep it
  apart from the \<open>FreightOption\<close> of the freight module; its property \<open>id\<close> is
  \<open>ident\<close>.  \<open>score\<close> is the property that \<open>calculateRanking\<close> adds to the options
  it ranks; the options it is given have none.
\<close>

record RankingOption =
  ident :: string
  carrier :: string
  service :: string
  price :: number
  deliveryDays :: number
  source :: FreightSource
  economics :: "EconomicMetrics option"
  score :: "number option"

text \<open>
  \<open>EconomicContext\<close>.  It has three weights of its own, named like those of
  \<open>RankingStrategy\<close>; \<open>calculateRanking\<close> never reads them.
\<close>

record EconomicContext =
  priceWeight :: number
  timeWeight :: number
  marginWeight :: number
  productCost :: number
  sellingPrice :: number
  operationalCost :: "number option"

record RankingStrategy =
  priceWeight :: number
  timeWeight :: number
  marginWeight :: "number option"

definition DEFAULT_STRATEGY :: RankingStrategy where
  "DEFAULT_STRATEGY = \<lparr>priceWeight = 6 / 10, timeWeight = 4 / 10, marginWeight = Some 0\<rparr>"

record FreightRanking =
  options :: "RankingOption list"
  bestOption :: "RankingOption option"
  cheapestOption :: "RankingOption option"
  fastestOption :: "RankingOption option"
  bestCostBenefit :: "RankingOption option"

text \<open>Step 0: the economics of one option under a context.\<close>

definition withEconomics :: "EconomicContext \<Rightarrow> RankingOption \<Rightarrow> RankingOption" where
  "withEconomics context opt =
     (let operationalCost = (case operationalCost context of None \<Rightarrow> 0 | Some c \<Rightarrow> c);
          netRevenue = sellingPrice context - price opt;
          profit = netRevenue - productCost context - operationalCost;
          marginPercent =
            (if sellingPrice context > 0 then (profit / sellingPrice context) * 100 else 0)
      in opt\<lparr>economics :=
              Some \<lparr>netRevenue = netRevenue, profit = profit, marginPercent = marginPercent\<rparr>\<rparr>)"

definition workingOptions :: "RankingOption list \<Rightarrow> EconomicContext option \<Rightarrow> RankingOption list" where
  "workingOptions opts context =
     (case context of None \<Rightarrow> opts | Some c \<Rightarrow> map (withEconomics c) opts)"

text \<open>\<open>opt.economics?.marginPercent || 0\<close>.\<close>

definition marginOrZero :: "RankingOption \<Rightarrow> number" where
  "marginOrZero opt = (case economics opt of None \<Rightarrow> 0 | Some e \<Rightarrow> marginPercent e)"

definition byPrice :: "RankingOption \<Rightarrow> RankingOption \<Rightarrow> number" where
  "byPrice a b = price a - price b"

definition byTime :: "RankingOption \<Rightarrow> RankingOption \<Rightarrow> number" where
  "byTime a b = deliveryDays a - deliveryDays b"

definition byMarginDesc :: "RankingOption \<Rightarrow> RankingOption \<Rightarrow> number" where
  "byMarginDesc a b = marginOrZero b - marginOrZero a"

text \<open>The comparator of step 3; every option it is given has a score.\<close>

definition byScore :: "RankingOption \<Rightarrow> RankingOption \<Rightarrow> number" where
  "byScore a b = the (score a) - the (score b)"

text \<open>The best-margin option of step 1: only computed when a context is given.\<close>

definition bestMarginOption ::
  "RankingOption list \<Rightarrow> EconomicContext option \<Rightarrow> RankingOption option" where
  "bestMarginOption working context =
     (case context of None \<Rightarrow> None | Some c \<Rightarrow> Some (hd (sortBy byMarginDesc working)))"

text \<open>\<open>bestMarginOption?.economics?.marginPercent || 1\<close>.\<close>

definition maxMarginOf :: "RankingOption option \<Rightarrow> number" where
  "maxMarginOf best =
     (case best of
        None \<Rightarrow> 1
      | Some b \<Rightarrow>
          (case economics b of
             None \<Rightarrow> 1
           | Some e \<Rightarrow> if marginPercent e = 0 then 1 else marginPercent e))"

text \<open>
  Step 2: the score of one option.  The quotients are those of the rationals: the
  scores of the model are those of the program when the minimal price and the minimal
  delivery time are not zero (the program's quotients are infinite or \<open>NaN\<close> otherwise).
\<close>

definition scoreOption ::
  "RankingStrategy \<Rightarrow> EconomicContext option \<Rightarrow> number \<Rightarrow> number \<Rightarrow> number \<Rightarrow> RankingOption
     \<Rightarrow> RankingOption" where
  "scoreOption strategy context minPrice minTime maxMargin opt =
     (let priceScore = (price opt / minPrice) * priceWeight strategy;
          timeScore = (deliveryDays opt / minTime) * timeWeight strategy;
          marginScore =
            (case (context, marginWeight strategy, economics opt) of
               (Some c, Some w, Some e) \<Rightarrow>
                 if w \<noteq> 0 then (1 - marginPercent e / maxMargin) * w else 0
             | _ \<Rightarrow> 0)
      in opt\<lparr>score := Some (priceScore + timeScore + marginScore)\<rparr>)"

definition calculateRanking ::
  "RankingOption list \<Rightarrow> RankingStrategy \<Rightarrow> EconomicContext option \<Rightarrow> FreightRanking" where
  "calculateRanking opts strategy context =
     (if opts = [] then
        \<lparr>options = [], bestOption = None, cheapestOption = None, fastestOption = None,
          bestCostBenefit = None\<rparr>
      else
        let working = workingOptions opts context;
            sortedByPrice = sortBy byPrice working;
            sortedByTime = sortBy byTime working;
            cheapest = hd sortedByPrice;
            fastest = hd sortedByTime;
            bestMargin = bestMarginOption working context;
            minPrice = price cheapest;
            minTime = deliveryDays fastest;
            maxMargin = maxMarginOf bestMargin;
            scoredOptions = map (scoreOption strategy context minPrice minTime maxMargin) working;
            ranked = sortBy byScore scoredOptions;
            best = hd ranked
        in \<lparr>options = ranked, bestOption = Some best, cheapestOption = Some cheapest,
             fastestOption = Some fastest, bestCostBenefit = Some best\<rparr>)"

text \<open>
  The candidates of the ranking scenario of the specification (prices 20, 40, 25;
  delivery in 10, 3, 8 days), and a context with selling price 100 and product cost 10.
\<close>

definition candidate :: "string \<Rightarrow> number \<Rightarrow> number \<Rightarrow> RankingOption" where
  "candidate name p d =
     \<lparr>ident = name, carrier = name, service = name, price = p, deliveryDays = d,
      source = melhor_envio, economics = None, score = None\<rparr>"

definition scenarioCandidates :: "RankingOption list" where
  "scenarioCandidates = [candidate ''a'' 20 10, candidate ''b'' 40 3, candidate ''c'' 25 8]"

definition scenarioContext :: EconomicContext where
  "scenarioContext =
     \<lparr>EconomicContext.priceWeight = 6 / 10, EconomicContext.timeWeight = 4 / 10,
      EconomicContext.marginWeight = 0, productCost = 10, sellingPrice = 100,
      operationalCost = None\<rparr>"

section \<open>Properties of the ranking engine\<close>

text \<open>A comparator that is the difference of a key sorts like the library's stable sort by that key.\<close>

lemma insertBy_insort_key:
  "(\<And>a b. (cmp a b \<le> 0) = (key a \<le> key b)) \<Longrightarrow> insertBy cmp x ys = insort_key key x ys"
  by (induction ys) simp_all

lemma sortBy_sort_key:
  assumes "\<And>a b. (cmp a b \<le> 0) = (key a \<le> key b)"
  shows "sortBy cmp xs = sort_key key xs"
  by (induction xs) (simp_all add: sortBy_def insertBy_insort_key[OF assms])

lemma hd_sort_key_min:
  assumes "xs \<noteq> []"
  shows "hd (sort_key key xs) \<in> set xs \<and> (\<forall>x \<in> set xs. key (hd (sort_key key xs)) \<le> key x)"
proof -
  let ?s = "sort_key key xs"
  have ne: "?s \<noteq> []" using assms by (metis length_0_conv length_sort)
  have srt: "sorted (map key ?s)" by (rule sorted_sort_key)
  have st: "set ?s = set xs" by simp
  obtain y ys where ys: "?s = y # ys" using ne by (cases ?s) auto
  with srt have "\<forall>x \<in> set ys. key y \<le> key x" by simp
  with ys st show ?thesis by (metis list.sel(1) list.set_intros(1) order_refl set_ConsD)
qed


lemma byPrice_key: "(byPrice a b \<le> 0) = (price a \<le> price b)"
  by (simp add: byPrice_def)

lemma byTime_key: "(byTime a b \<le> 0) = (deliveryDays a \<le> deliveryDays b)"
  by (simp add: byTime_def)

lemma byMarginDesc_key: "(byMarginDesc a b \<le> 0) = (- marginOrZero a \<le> - marginOrZero b)"
  by (simp add: byMarginDesc_def)

lemma workingOptions_nonempty: "opts \<noteq> [] \<Longrightarrow> workingOptions opts context \<noteq> []"
  by (cases "context") (simp_all add: workingOptions_def)

lemma price_withEconomics: "price (withEconomics c opt) = price opt"
  by (simp add: withEconomics_def Let_def)

lemma deliveryDays_withEconomics: "deliveryDays (withEconomics c opt) = deliveryDays opt"
  by (simp add: withEconomics_def Let_def)

lemma workingOptions_member:
  "w \<in> set (workingOptions opts context) \<Longrightarrow>
     \<exists>opt \<in> set opts. price w = price opt \<and> deliveryDays w = deliveryDays opt
        \<and> w = (case context of None \<Rightarrow> opt | Some c \<Rightarrow> withEconomics c opt)"
  by (cases "context") (auto simp: workingOptions_def price_withEconomics deliveryDays_withEconomics)

lemma workingOptions_covers:
  "opt \<in> set opts \<Longrightarrow>
     \<exists>w \<in> set (workingOptions opts context). price w = price opt \<and> deliveryDays w = deliveryDays opt"
  by (cases "context") (auto simp: workingOptions_def price_withEconomics deliveryDays_withEconomics)

text \<open>With a context, a lower price is a higher margin.\<close>

lemma margin_antimono:
  "price a \<le> price b \<Longrightarrow>
     marginOrZero (withEconomics c b) \<le> marginOrZero (withEconomics c a)"
  by (simp add: marginOrZero_def withEconomics_def Let_def divide_right_mono)

lemma cheapestOption_eq:
  "opts \<noteq> [] \<Longrightarrow>
     cheapestOption (calculateRanking opts strategy context) =
       Some (hd (sort_key price (workingOptions opts context)))"
  by (simp add: calculateRanking_def Let_def sortBy_sort_key[of byPrice price, OF byPrice_key])

lemma fastestOption_eq:
  "opts \<noteq> [] \<Longrightarrow>
     fastestOption (calculateRanking opts strategy context) =
       Some (hd (sort_key deliveryDays (workingOptions opts context)))"
  by (simp add: calculateRanking_def Let_def sortBy_sort_key[of byTime deliveryDays, OF byTime_key])

lemma bestCostBenefit_eq:
  "bestCostBenefit (calculateRanking opts strategy context) =
     bestOption (calculateRanking opts strategy context)"
  by (simp add: calculateRanking_def Let_def)


lemmas ranking_eval = calculateRanking_def workingOptions_def withEconomics_def sortBy_def
  byPrice_def byTime_def byMarginDesc_def byScore_def bestMarginOption_def maxMarginOf_def
  scoreOption_def marginOrZero_def scenarioCandidates_def scenarioContext_def candidate_def
  DEFAULT_STRATEGY_def Let_def



section \<open>Freight service\<close>

text \<open>
  \<open>src/modules/freight/freight.types.ts\<close> and the provider types of
  \<open>freight.service.ts\<close>.  The property \<open>id\<close> of a quote is \<open>ident\<close>.
\<close>

record FreightRequest =
  destinationCep :: string
  quantity :: number
  unitWeight :: "number option"
  dimensions :: "(number \<times> number \<times> number) option"

datatype QuoteSource = melhorenvio | tabela

record TabelaQuote =
  ident :: string
  carrier :: string
  service :: string
  price :: number
  deliveryTime :: number

text \<open>\<open>FreightOption\<close> of the freight module: a quote and its source (\<open>{...q, source}\<close>).\<close>

record FreightOption = TabelaQuote +
  source :: QuoteSource

datatype FreightStrategy = MELHORENVIO_ONLY | BOTH | TABELA_ONLY

record WeightDecision =
  totalWeight :: number
  strategy :: FreightStrategy
  reason :: string

record FreightResult =
  success :: bool
  options :: "FreightOption list"
  totalWeight :: number
  request :: FreightRequest
  calculatedAt :: int

text \<open>The row handed to \<open>simulationRepository.saveSimulation\<close> (numbers before \<open>toString\<close>).\<close>

record NewSimulationRecord =
  sim_id :: string
  sim_cep :: string
  sim_weight :: number
  sim_quantity :: number
  sim_bestCarrier :: string
  sim_bestService :: string
  sim_bestPrice :: number
  sim_bestMargin :: number
  sim_strategy :: FreightStrategy
  sim_productCost :: string
  sim_sellingPrice :: string

text \<open>
  What one call of \<open>calculateFreight\<close> meets outside the service: the clock, what
  \<open>melhorEnvioProvider.calculateShipping\<close> does for this request (it throws or it
  returns quotes), whether \<open>saveSimulation\<close> throws, the identifier that
  \<open>randomUUID\<close> yields, and the outcome of the \<open>SET\<close> command that writes the cache.
\<close>

record FreightEnv =
  dateNow :: int
  melhorEnvioResponse :: "error + FreightOption list"
  saveSimulationError :: "error option"
  randomUUID :: string
  cacheSetOk :: bool

text \<open>
  The cache key \<open>v1:freight:{cep}:{totalWeight}:{quantity}\<close> is kept as the triple
  it is printed from.  The service's state is the quote cache behind the Redis client
  and the table of simulations.
\<close>

type_synonym CacheKey = "string \<times> number \<times> number"

record FreightState =
  quoteCache :: "(CacheKey, FreightResult) Redis"
  simulations :: "NewSimulationRecord list"

text \<open>\<open>TabelaProvider.calculateShipping\<close>.  The accent of the service name is in UTF-8.\<close>

definition tabelaCalculateShipping :: "number \<Rightarrow> TabelaQuote list" where
  "tabelaCalculateShipping w =
     (if w \<le> 30 then
        [\<lparr>ident = ''tabela-1'', carrier = ''Transportadora Local'',
          service = ''Rodovi'' @ [CHR 0xC3, CHR 0xA1] @ ''rio'',
          price = 45 + w * (5 / 2), deliveryTime = 5\<rparr>]
      else [])"

text \<open>\<open>/^\d{8}$/\<close>.\<close>

definition isCepFormat :: "string \<Rightarrow> bool" where
  "isCepFormat s = (length s = 8 \<and> list_all isDigitChar s)"

definition validateRequest :: "FreightRequest \<Rightarrow> error option" where
  "validateRequest req =
     (if \<not> isCepFormat (destinationCep req) then
        Some (BusinessError INVALID_CEP ''Invalid CEP format'')
      else if quantity req \<le> 0 \<or> quantity req > 9999 then
        Some (BusinessError INVALID_QUANTITY ''Invalid quantity'')
      else None)"

text \<open>\<open>request.unitWeight || appConfig.freight.defaultUnitWeight\<close>.\<close>

definition unitWeightOf :: "AppConfig \<Rightarrow> FreightRequest \<Rightarrow> number" where
  "unitWeightOf cfg req =
     (case unitWeight req of
        None \<Rightarrow> defaultUnitWeight cfg
      | Some w \<Rightarrow> if w = 0 then defaultUnitWeight cfg else w)"

definition totalWeightOf :: "AppConfig \<Rightarrow> FreightRequest \<Rightarrow> number" where
  "totalWeightOf cfg req = unitWeightOf cfg req * quantity req"

definition cacheKey :: "AppConfig \<Rightarrow> FreightRequest \<Rightarrow> CacheKey" where
  "cacheKey cfg req = (destinationCep req, totalWeightOf cfg req, quantity req)"

text \<open>The sign \<open>\<le>\<close> of the first reason string, in UTF-8.\<close>

definition leSign :: string where
  "leSign = [CHR 0xE2, CHR 0x89, CHR 0xA4]"

definition decideStrategy :: "number \<Rightarrow> WeightDecision" where
  "decideStrategy w =
     (if w \<le> 10 then
        \<lparr>WeightDecision.totalWeight = w, strategy = MELHORENVIO_ONLY,
          reason = ''Weight '' @ leSign @ ''10kg: Using Melhor Envio only''\<rparr>
      else if w > 10 \<and> w \<le> 15 then
        \<lparr>WeightDecision.totalWeight = w, strategy = BOTH,
          reason = ''Weight 10-15kg: Using both Melhor Envio and Tabela''\<rparr>
      else
        \<lparr>WeightDecision.totalWeight = w, strategy = TABELA_ONLY,
          reason = ''Weight >15kg: Using Tabela only''\<rparr>)"

text \<open>The providers that \<open>fetchQuotes\<close> queries under a strategy.\<close>

definition queriesMelhorEnvio :: "FreightStrategy \<Rightarrow> bool" where
  "queriesMelhorEnvio s = (s = MELHORENVIO_ONLY \<or> s = BOTH)"

definition queriesTabela :: "FreightStrategy \<Rightarrow> bool" where
  "queriesTabela s = (s = TABELA_ONLY \<or> s = BOTH)"

definition fromTabela :: "TabelaQuote \<Rightarrow> FreightOption" where
  "fromTabela q =
     \<lparr>ident = ident q, carrier = carrier q, service = service q, price = price q,
      deliveryTime = deliveryTime q, source = tabela\<rparr>"

text \<open>The \<open>catch\<close> of \<open>fetchQuotes\<close>: a \<open>BusinessError\<close> goes on, anything else is wrapped.\<close>

definition fetchCatch :: "error \<Rightarrow> error" where
  "fetchCatch e =
     (if isBusinessError e then e
      else BusinessError FREIGHT_CALCULATION_ERROR ''Failed to fetch freight quotes'')"

definition fetchQuotes :: "FreightEnv \<Rightarrow> number \<Rightarrow> FreightStrategy \<Rightarrow> error + FreightOption list" where
  "fetchQuotes ev w s =
     (case (if queriesMelhorEnvio s then melhorEnvioResponse ev else Inr []) of
        Inl e \<Rightarrow> Inl (fetchCatch e)
      | Inr meQuotes \<Rightarrow>
          (let opts = meQuotes @
                 (if queriesTabela s then map fromTabela (tabelaCalculateShipping w) else [])
           in if opts = [] then
                Inl (fetchCatch (BusinessError NO_FREIGHT_OPTIONS
                       ''No freight options available for this destination''))
              else Inr opts))"

text \<open>The comparator of \<open>sortAndLimitOptions\<close>: by price, then by delivery time.\<close>

definition byPriceThenTime :: "FreightOption \<Rightarrow> FreightOption \<Rightarrow> number" where
  "byPriceThenTime a b =
     (if price a \<noteq> price b then price a - price b else deliveryTime a - deliveryTime b)"

text \<open>\<open>xs.slice(0, n)\<close>: a negative \<open>n\<close> counts from the end.\<close>

definition slice0 :: "int \<Rightarrow> 'a list \<Rightarrow> 'a list" where
  "slice0 n xs = (if n < 0 then take (length xs - nat (- n)) xs else take (nat n) xs)"

definition sortAndLimitOptions :: "AppConfig \<Rightarrow> FreightOption list \<Rightarrow> FreightOption list" where
  "sortAndLimitOptions cfg opts = slice0 (maxOptionsToReturn cfg) (sortBy byPriceThenTime opts)"

definition persistSimulation ::
  "FreightEnv \<Rightarrow> FreightState \<Rightarrow> NewSimulationRecord \<Rightarrow> error + FreightState" where
  "persistSimulation ev st row =
     (case saveSimulationError ev of
        Some e \<Rightarrow> Inl (BusinessError FREIGHT_CALCULATION_ERROR ''Failed to persist simulation result'')
      | None \<Rightarrow> Inr (st\<lparr>simulations := simulations st @ [row]\<rparr>))"

text \<open>\<open>cacheResult\<close>: ten minutes of time to live; the outcome of \<open>set\<close> is not looked at.\<close>

definition cacheResult ::
  "AppConfig \<Rightarrow> FreightEnv \<Rightarrow> FreightState \<Rightarrow> FreightRequest \<Rightarrow> number \<Rightarrow> FreightOption list
     \<Rightarrow> FreightState" where
  "cacheResult cfg ev st req w opts =
     st\<lparr>quoteCache :=
          snd (redis_set cfg (quoteCache st) (cacheSetOk ev) (destinationCep req, w, quantity req)
                 \<lparr>success = True, options = sortAndLimitOptions cfg opts, totalWeight = w,
                   request = req, calculatedAt = dateNow ev\<rparr> 600)\<rparr>"

text \<open>The outer \<open>catch\<close> of \<open>calculateFreight\<close>.\<close>

definition calculateCatch :: "error \<Rightarrow> error" where
  "calculateCatch e =
     (if isBusinessError e then e
      else BusinessError FREIGHT_CALCULATION_ERROR ''Failed to calculate freight'')"

text \<open>
  \<open>calculateFreight\<close>.  \<open>Array.prototype.sort\<close> sorts in place, so the array that
  \<open>cacheResult\<close> receives is the sorted one.  When the cap leaves no option,
  \<open>bestOption\<close> is \<open>undefined\<close> and reading its price throws a \<open>TypeError\<close>.
\<close>

definition calculateFreight ::
  "AppConfig \<Rightarrow> FreightEnv \<Rightarrow> FreightState \<Rightarrow> FreightRequest
     \<Rightarrow> (error + FreightResult) \<times> FreightState" where
  "calculateFreight cfg ev st req =
     (case validateRequest req of
        Some e \<Rightarrow> (Inl (calculateCatch e), st)
      | None \<Rightarrow>
         (case redis_get (quoteCache st) (cacheKey cfg req) of
            Some cached \<Rightarrow> (Inr cached, st)
          | None \<Rightarrow>
             (let w = totalWeightOf cfg req;
                  decision = decideStrategy w
              in case fetchQuotes ev w (strategy decision) of
                   Inl e \<Rightarrow> (Inl (calculateCatch e), st)
                 | Inr opts \<Rightarrow>
                    (let sortedOptions = sortAndLimitOptions cfg opts;
                         optsSorted = sortBy byPriceThenTime opts
                     in case sortedOptions of
                          [] \<Rightarrow> (Inl (calculateCatch (OtherError ''TypeError'')), st)
                        | best # rest \<Rightarrow>
                           (let bestMargin = price best * (2 / 10);
                                row = \<lparr>sim_id = randomUUID ev, sim_cep = destinationCep req,
                                       sim_weight = w, sim_quantity = quantity req,
                                       sim_bestCarrier = carrier best,
                                       sim_bestService = service best,
                                       sim_bestPrice = price best,
                                       sim_bestMargin = bestMargin,
                                       sim_strategy = strategy decision,
                                       sim_productCost = ''0.00'', sim_sellingPrice = ''0.00''\<rparr>
                            in case persistSimulation ev st row of
                                 Inl e \<Rightarrow> (Inl (calculateCatch e), st)
                               | Inr st1 \<Rightarrow>
                                   (Inr \<lparr>success = True, options = sortedOptions, totalWeight = w,
                                         request = req, calculatedAt = dateNow ev\<rparr>,
                                    cacheResult cfg ev st1 req w optsSorted))))))"

text \<open>
  The mapping of the dashboard (\<open>cockpit/page.tsx\<close>) from the options of the service
  to the options that the ranking engine takes.
\<close>

definition toRankingOption :: "FreightOption \<Rightarrow> RankingOption" where
  "toRankingOption opt =
     \<lparr>RankingOption.ident = ident opt, RankingOption.carrier = carrier opt,
      RankingOption.service = service opt, RankingOption.price = price opt,
      deliveryDays = deliveryTime opt, RankingOption.source = melhor_envio,
      economics = None, score = None\<rparr>"

text \<open>Example data: an empty state, a request for one unit, and four quotes of Melhor Envio.\<close>

definition emptyState :: FreightState where
  "emptyState =
     \<lparr>quoteCache = \<lparr>isConnected = True, reachable = True, kv = Map.empty\<rparr>, simulations = []\<rparr>"

definition requestFor :: "number \<Rightarrow> FreightRequest" where
  "requestFor q =
     \<lparr>destinationCep = ''01001000'', quantity = q, unitWeight = None, dimensions = None\<rparr>"

definition quote :: "string \<Rightarrow> number \<Rightarrow> number \<Rightarrow> FreightOption" where
  "quote name p d =
     \<lparr>ident = name, carrier = name, service = name, price = p, deliveryTime = d,
      source = melhorenvio\<rparr>"

definition envWith :: "FreightOption list \<Rightarrow> FreightEnv" where
  "envWith quotes =
     \<lparr>dateNow = 1000, melhorEnvioResponse = Inr quotes, saveSimulationError = None,
      randomUUID = ''uuid-1'', cacheSetOk = True\<rparr>"

definition fourQuotes :: "FreightOption list" where
  "fourQuotes = [quote ''d'' 13 1, quote ''c'' 12 5, quote ''a'' 10 5, quote ''b'' 11 5]"

section \<open>Properties of the freight service\<close>

text \<open>
  C6.  The strategy is chosen by the thresholds 10 and 15: a weight up to 10 (10
  included) selects Melhor Envio only, a weight above 10 and up to 15 (10.01 and 15
  included) selects both providers, a weight above 15 (15.01 included) selects the
  table only; \<open>fetchQuotes\<close> queries exactly the providers of the strategy.
\<close>

theorem C6_weight_strategy:
  "strategy (decideStrategy w) =
     (if w \<le> 10 then MELHORENVIO_ONLY else if w \<le> 15 then BOTH else TABELA_ONLY)
   \<and> (w \<le> 10 \<longrightarrow> queriesMelhorEnvio (strategy (decideStrategy w))
                     \<and> \<not> queriesTabela (strategy (decideStrategy w)))
   \<and> (10 < w \<and> w \<le> 15 \<longrightarrow> queriesMelhorEnvio (strategy (decideStrategy w))
                     \<and> queriesTabela (strategy (decideStrategy w)))
   \<and> (15 < w \<longrightarrow> \<not> queriesMelhorEnvio (strategy (decideStrategy w))
                     \<and> queriesTabela (strategy (decideStrategy w)))
   \<and> strategy (decideStrategy 10) = MELHORENVIO_ONLY
   \<and> strategy (decideStrategy (1001 / 100)) = BOTH
   \<and> strategy (decideStrategy 15) = BOTH
   \<and> strategy (decideStrategy (1501 / 100)) = TABELA_ONLY"
  by (simp add: decideStrategy_def queriesMelhorEnvio_def queriesTabela_def)

text \<open>C6 on the weights 0.3, 12 and 20.\<close>

theorem C6_weight_strategy_witness:
  "(3 / 10 :: rat) \<le> 10 \<and> strategy (decideStrategy (3 / 10)) = MELHORENVIO_ONLY
   \<and> queriesMelhorEnvio (strategy (decideStrategy (3 / 10)))
   \<and> \<not> queriesTabela (strategy (decideStrategy (3 / 10)))
   \<and> (10 :: rat) < 12 \<and> (12 :: rat) \<le> 15 \<and> strategy (decideStrategy 12) = BOTH
   \<and> queriesMelhorEnvio (strategy (decideStrategy 12)) \<and> queriesTabela (strategy (decideStrategy 12))
   \<and> (15 :: rat) < 20 \<and> strategy (decideStrategy 20) = TABELA_ONLY
   \<and> \<not> queriesMelhorEnvio (strategy (decideStrategy 20)) \<and> queriesTabela (strategy (decideStrategy 20))"
  using C6_weight_strategy [of "3 / 10"] C6_weight_strategy [of 12] C6_weight_strategy [of 20]
  by (simp add: queriesMelhorEnvio_def queriesTabela_def)

text \<open>When every provider that is queried returns no quote, \<open>fetchQuotes\<close> raises \<open>NO_FREIGHT_OPTIONS\<close>.\<close>

lemma fetchQuotes_empty:
  assumes "queriesMelhorEnvio s \<longrightarrow> melhorEnvioResponse ev = Inr []"
    and "queriesTabela s \<longrightarrow> tabelaCalculateShipping w = []"
  shows "fetchQuotes ev w s =
           Inl (BusinessError NO_FREIGHT_OPTIONS ''No freight options available for this destination'')"
  using assms by (simp add: fetchQuotes_def fetchCatch_def)

text \<open>
  \<open>fetchQuotes\<close> returns a list exactly when no provider throws and the merged list,
  the quotes of Melhor Envio followed by those of the table, is not empty.
\<close>

lemma fetchQuotes_Inr_iff:
  "fetchQuotes ev w s = Inr opts \<longleftrightarrow>
     (\<exists>meQuotes.
        (if queriesMelhorEnvio s then melhorEnvioResponse ev = Inr meQuotes else meQuotes = [])
        \<and> opts = meQuotes @
              (if queriesTabela s then map fromTabela (tabelaCalculateShipping w) else [])
        \<and> opts \<noteq> [])"
  by (auto simp: fetchQuotes_def Let_def split: sum.splits if_splits)

text \<open>
  C8.  For a valid request that misses the cache, if every provider queried under the
  strategy of its weight returns an empty list, \<open>calculateFreight\<close> fails with the
  \<open>BusinessError\<close> of code \<open>NO_FREIGHT_OPTIONS\<close>, and the state it leaves is the state
  it found: nothing is written to the cache and no simulation is saved.
\<close>

theorem C8_no_options:
  assumes "validateRequest req = None"
    and "redis_get (quoteCache st) (cacheKey cfg req) = None"
    and "queriesMelhorEnvio (strategy (decideStrategy (totalWeightOf cfg req)))
           \<longrightarrow> melhorEnvioResponse ev = Inr []"
    and "queriesTabela (strategy (decideStrategy (totalWeightOf cfg req)))
           \<longrightarrow> tabelaCalculateShipping (totalWeightOf cfg req) = []"
  shows "calculateFreight cfg ev st req =
           (Inl (BusinessError NO_FREIGHT_OPTIONS
                   ''No freight options available for this destination''), st)"
  using assms(1,2) fetchQuotes_empty[OF assms(3,4)]
  by (simp add: calculateFreight_def calculateCatch_def)

text \<open>
  C10.  For a valid request (eight digits, quantity above 0 and at most 9999) that
  misses the cache and whose total weight exceeds 30, the strategy is the table alone,
  the table has no quote, and \<open>calculateFreight\<close> fails with \<open>NO_FREIGHT_OPTIONS\<close>,
  whatever Melhor Envio would answer; the state is unchanged.
\<close>

theorem C10_over_30kg_no_options:
  assumes "isCepFormat (destinationCep req)"
    and "0 < quantity req" and "quantity req \<le> 9999"
    and "redis_get (quoteCache st) (cacheKey cfg req) = None"
    and "30 < totalWeightOf cfg req"
  shows "strategy (decideStrategy (totalWeightOf cfg req)) = TABELA_ONLY
     \<and> tabelaCalculateShipping (totalWeightOf cfg req) = []
     \<and> calculateFreight cfg ev st req =
           (Inl (BusinessError NO_FREIGHT_OPTIONS
                   ''No freight options available for this destination''), st)"
proof -
  have v: "validateRequest req = None" using assms(1-3) by (simp add: validateRequest_def)
  have s: "strategy (decideStrategy (totalWeightOf cfg req)) = TABELA_ONLY"
    using assms(5) by (simp add: decideStrategy_def)
  have t: "tabelaCalculateShipping (totalWeightOf cfg req) = []"
    using assms(5) by (simp add: tabelaCalculateShipping_def)
  have "fetchQuotes ev (totalWeightOf cfg req) TABELA_ONLY =
           Inl (BusinessError NO_FREIGHT_OPTIONS ''No freight options available for this destination'')"
    using t by (simp add: fetchQuotes_def fetchCatch_def queriesMelhorEnvio_def queriesTabela_def)
  then show ?thesis using v s t assms(4)
    by (simp add: calculateFreight_def calculateCatch_def)
qed


text \<open>C8 on a request for one unit (0.3 kg) when Melhor Envio returns no quote.\<close>

theorem C8_no_options_witness:
  "validateRequest (requestFor 1) = None
   \<and> redis_get (quoteCache emptyState) (cacheKey defaultConfig (requestFor 1)) = None
   \<and> queriesMelhorEnvio (strategy (decideStrategy (totalWeightOf defaultConfig (requestFor 1))))
   \<and> melhorEnvioResponse (envWith []) = Inr []
   \<and> \<not> queriesTabela (strategy (decideStrategy (totalWeightOf defaultConfig (requestFor 1))))
   \<and> calculateFreight defaultConfig (envWith []) emptyState (requestFor 1) =
        (Inl (BusinessError NO_FREIGHT_OPTIONS
                ''No freight options available for this destination''), emptyState)
   \<and> simulations emptyState = [] \<and> kv (quoteCache emptyState) = Map.empty"
proof -
  have v: "validateRequest (requestFor 1) = None"
    by (simp add: validateRequest_def requestFor_def isCepFormat_def isDigitChar_def)
  have c: "redis_get (quoteCache emptyState) (cacheKey defaultConfig (requestFor 1)) = None"
    by (simp add: redis_get_def emptyState_def)
  have w: "totalWeightOf defaultConfig (requestFor 1) = 3 / 10"
    by (simp add: totalWeightOf_def unitWeightOf_def requestFor_def defaultConfig_def)
  have m: "queriesMelhorEnvio (strategy (decideStrategy (totalWeightOf defaultConfig (requestFor 1))))"
    by (simp add: w decideStrategy_def queriesMelhorEnvio_def)
  have t: "\<not> queriesTabela (strategy (decideStrategy (totalWeightOf defaultConfig (requestFor 1))))"
    by (simp add: w decideStrategy_def queriesTabela_def)
  have r: "melhorEnvioResponse (envWith []) = Inr []" by (simp add: envWith_def)
  from C8_no_options [OF v c, of "envWith []"] v c m t r show ?thesis
    by (simp add: emptyState_def)
qed

text \<open>C10 on a request for 101 units (30.3 kg), Melhor Envio having four quotes.\<close>

theorem C10_over_30kg_no_options_witness:
  "isCepFormat (destinationCep (requestFor 101))
   \<and> 0 < quantity (requestFor 101) \<and> quantity (requestFor 101) \<le> 9999
   \<and> redis_get (quoteCache emptyState) (cacheKey defaultConfig (requestFor 101)) = None
   \<and> totalWeightOf defaultConfig (requestFor 101) = 303 / 10
   \<and> calculateFreight defaultConfig (envWith fourQuotes) emptyState (requestFor 101) =
        (Inl (BusinessError NO_FREIGHT_OPTIONS
                ''No freight options available for this destination''), emptyState)"
proof -
  have h1: "isCepFormat (destinationCep (requestFor 101))"
    by (simp add: requestFor_def isCepFormat_def isDigitChar_def)
  have h2: "0 < quantity (requestFor 101)" and h3: "quantity (requestFor 101) \<le> 9999"
    by (simp_all add: requestFor_def)
  have h4: "redis_get (quoteCache emptyState) (cacheKey defaultConfig (requestFor 101)) = None"
    by (simp add: redis_get_def emptyState_def)
  have w: "totalWeightOf defaultConfig (requestFor 101) = 303 / 10"
    by (simp add: totalWeightOf_def unitWeightOf_def requestFor_def defaultConfig_def)
  have h5: "30 < totalWeightOf defaultConfig (requestFor 101)" by (simp add: w)
  from C10_over_30kg_no_options [OF h1 h2 h3 h4 h5, of "envWith fourQuotes"] h1 h2 h3 h4 w
  show ?thesis by simp
qed

text \<open>The comparator of the service is the lexicographic order on (price, delivery time).\<close>

lemma byPriceThenTime_key:
  "(byPriceThenTime a b \<le> 0) = ((price a, deliveryTime a) \<le> (price b, deliveryTime b))"
  by (auto simp: byPriceThenTime_def less_eq_prod_def)

lemma sortBy_byPriceThenTime:
  "sortBy byPriceThenTime opts = sort_key (\<lambda>opt. (price opt, deliveryTime opt)) opts"
  by (rule sortBy_sort_key) (rule byPriceThenTime_key)

lemma sorted_wrt_take: "sorted_wrt P xs \<Longrightarrow> sorted_wrt P (take n xs)"
  by (metis append_take_drop_id sorted_wrt_append)

lemma sorted_byPriceThenTime:
  "sorted_wrt (\<lambda>a b. price a < price b \<or> (price a = price b \<and> deliveryTime a \<le> deliveryTime b))
     (sortBy byPriceThenTime opts)"
proof -
  have "sorted (map (\<lambda>opt. (price opt, deliveryTime opt)) (sortBy byPriceThenTime opts))"
    unfolding sortBy_byPriceThenTime by (rule sorted_sort_key)
  then have "sorted_wrt (\<lambda>a b. (price a, deliveryTime a) \<le> (price b, deliveryTime b))
      (sortBy byPriceThenTime opts)"
    by (simp add: sorted_map)
  then show ?thesis
    by (rule sorted_wrt_mono_rel[rotated]) (auto simp: less_eq_prod_def)
qed


lemmas freight_eval = calculateFreight_def validateRequest_def isCepFormat_def isDigitChar_def
  redis_get_def redis_set_def isAvailable_def cacheKey_def totalWeightOf_def unitWeightOf_def
  decideStrategy_def fetchQuotes_def fetchCatch_def queriesMelhorEnvio_def queriesTabela_def
  tabelaCalculateShipping_def fromTabela_def sortAndLimitOptions_def slice0_def sortBy_def
  byPriceThenTime_def persistSimulation_def cacheResult_def calculateCatch_def
  emptyState_def requestFor_def quote_def envWith_def fourQuotes_def defaultConfig_def Let_def



end
